theory Spec2Isabelle
  imports Complex_Main "HOL-Library.Word" "HOL-Library.AList" "HOL-Library.Sublist"
    "HOL-Library.Log_Nat" "HOL-Library.Code_Target_Numeral"
begin

section \<open>JavaScript values\<close>

text \<open>
  The handler of \<^verbatim>\<open>src/apivsk.js\<close> works on values that \<^verbatim>\<open>JSON.parse\<close> and the HTTP
  client produce, and on the object literals it builds from them. A string is its
  sequence of UTF-16 code units; \<open>ascii\<close> embeds the ASCII literals of the source.
\<close>

type_synonym jsstring = "16 word list"

definition ascii :: "string \<Rightarrow> jsstring" where
  "ascii s = map of_char s"

text \<open>
  A number is an IEEE double: not-a-number, an infinity, or a finite value, held as the
  rational it denotes. The two zeros are one value here; the program can tell them
  apart nowhere (both are falsy, and both serialise as \<^verbatim>\<open>0\<close>).
\<close>

datatype jsnum = NaN | PInf | NInf | Fin rat

datatype jsval =
    Undefined
  | Null
  | Bool bool
  | Num jsnum
  | Str jsstring
  | Arr "jsval list"
  | Obj "(jsstring \<times> jsval) list"

text \<open>
  An object is the list of its own properties in enumeration order; a lookup reads the
  first entry of a key. An exception is a value of \<open>js_error\<close>, with the text of its
  \<^verbatim>\<open>message\<close> property; \<open>External\<close> is an error raised by a collaborator (the HTTP
  client, the database driver, object storage), whose text is the collaborator's.
\<close>

datatype js_error =
    Error jsstring
  | TypeError jsstring
  | RangeError jsstring
  | External jsstring

fun message :: "js_error \<Rightarrow> jsstring" where
  "message (Error m) = m"
| "message (TypeError m) = m"
| "message (RangeError m) = m"
| "message (External m) = m"

text \<open>ToBoolean: what \<^verbatim>\<open>!x\<close>, \<^verbatim>\<open>x || y\<close> and \<^verbatim>\<open>if (x)\<close> test.\<close>

fun truthy :: "jsval \<Rightarrow> bool" where
  "truthy Undefined = False"
| "truthy Null = False"
| "truthy (Bool b) = b"
| "truthy (Num NaN) = False"
| "truthy (Num (Fin q)) = (q \<noteq> 0)"
| "truthy (Num PInf) = True"
| "truthy (Num NInf) = True"
| "truthy (Str s) = (s \<noteq> [])"
| "truthy (Arr xs) = True"
| "truthy (Obj kvs) = True"

text \<open>\<^verbatim>\<open>a || b\<close> on values.\<close>

definition or_else :: "jsval \<Rightarrow> jsval \<Rightarrow> jsval" where
  "or_else a b = (if truthy a then a else b)"

text \<open>
  \<^verbatim>\<open>x.k\<close>: reading a property of \<^verbatim>\<open>undefined\<close> or \<^verbatim>\<open>null\<close> throws a TypeError; an
  object yields its own property or \<^verbatim>\<open>undefined\<close>; any other value yields \<^verbatim>\<open>undefined\<close>.
  The program reads only the names written in its text (\<^verbatim>\<open>action\<close>, \<^verbatim>\<open>person\<close>,
  \<^verbatim>\<open>sumInsured\<close>, ...), none of which is inherited from a prototype or is an index or
  \<^verbatim>\<open>length\<close>, so primitives and arrays have none of them.
\<close>

definition cannot_read :: "jsval \<Rightarrow> string \<Rightarrow> js_error" where
  "cannot_read x k =
     TypeError (ascii (''Cannot read properties of ''
       @ (if x = Null then ''null'' else ''undefined'')
       @ '' (reading '' @ [CHR 0x27] @ k @ [CHR 0x27] @ '')''))"

definition get :: "jsval \<Rightarrow> string \<Rightarrow> js_error + jsval" where
  "get x k =
     (case x of
        Undefined \<Rightarrow> Inl (cannot_read x k)
      | Null \<Rightarrow> Inl (cannot_read x k)
      | Obj kvs \<Rightarrow> Inr (case map_of kvs (ascii k) of Some v \<Rightarrow> v | None \<Rightarrow> Undefined)
      | _ \<Rightarrow> Inr Undefined)"

text \<open>Sequencing of steps that may throw: the first exception ends the evaluation.\<close>

definition bind :: "js_error + 'a \<Rightarrow> ('a \<Rightarrow> js_error + 'b) \<Rightarrow> js_error + 'b" where
  "bind m f = (case m of Inl e \<Rightarrow> Inl e | Inr x \<Rightarrow> f x)"


section \<open>Numeric coercion\<close>

text \<open>
  \<^verbatim>\<open>Number(v)\<close> is the language's ToNumber. On a string it is StringToNumber: white space
  and line terminators are trimmed, the empty string is \<^verbatim>\<open>0\<close>, and the rest is a signed
  decimal literal (digits, fraction, exponent, or \<^verbatim>\<open>Infinity\<close>) or an unsigned
  hexadecimal, octal or binary literal; anything else is not-a-number. The
  mathematical value of the literal is rounded to the nearest double, ties to even.
\<close>

definition pow2 :: "int \<Rightarrow> rat" where
  "pow2 e = (if 0 \<le> e then 2 ^ nat e else 1 / 2 ^ nat (- e))"

definition pow10 :: "int \<Rightarrow> rat" where
  "pow10 e = (if 0 \<le> e then 10 ^ nat e else 1 / 10 ^ nat (- e))"

text \<open>The binary exponent of a positive rational: \<open>pow2 e \<le> q < pow2 (e + 1)\<close>.\<close>

definition ilog2 :: "rat \<Rightarrow> int" where
  "ilog2 q =
     (let (a, b) = quotient_of q;
          e0 = int (floorlog 2 (nat a)) - int (floorlog 2 (nat b))
      in if q < pow2 e0 then e0 - 1 else e0)"

definition round_half_even :: "rat \<Rightarrow> int" where
  "round_half_even x =
     (let f = \<lfloor>x\<rfloor>; d = x - of_int f
      in if d < 1 / 2 then f else if 1 / 2 < d then f + 1 else if even f then f else f + 1)"

definition round_double_pos :: "rat \<Rightarrow> jsnum" where
  "round_double_pos q =
     (let e = max (ilog2 q) (- 1022);
          ulp = pow2 (e - 52);
          r = of_int (round_half_even (q / ulp)) * ulp
      in if pow2 1024 \<le> r then PInf else Fin r)"

definition neg :: "jsnum \<Rightarrow> jsnum" where
  "neg n = (case n of NaN \<Rightarrow> NaN | PInf \<Rightarrow> NInf | NInf \<Rightarrow> PInf | Fin q \<Rightarrow> Fin (- q))"

definition round_double :: "rat \<Rightarrow> jsnum" where
  "round_double q =
     (if q = 0 then Fin 0 else if 0 < q then round_double_pos q
      else neg (round_double_pos (- q)))"

definition is_ws :: "16 word \<Rightarrow> bool" where
  "is_ws c = (c \<in> set [0x9, 0xA, 0xB, 0xC, 0xD, 0x20, 0xA0, 0x1680, 0x2000, 0x2001,
     0x2002, 0x2003, 0x2004, 0x2005, 0x2006, 0x2007, 0x2008, 0x2009, 0x200A, 0x2028,
     0x2029, 0x202F, 0x205F, 0x3000, 0xFEFF])"

definition trim :: "jsstring \<Rightarrow> jsstring" where
  "trim s = rev (dropWhile is_ws (rev (dropWhile is_ws s)))"

definition digit_of :: "16 word \<Rightarrow> nat option" where
  "digit_of c =
     (if 0x30 \<le> c \<and> c \<le> 0x39 then Some (unat c - 48)
      else if 0x61 \<le> c \<and> c \<le> 0x66 then Some (unat c - 87)
      else if 0x41 \<le> c \<and> c \<le> 0x46 then Some (unat c - 55)
      else None)"

definition is_digit :: "nat \<Rightarrow> 16 word \<Rightarrow> bool" where
  "is_digit b c = (case digit_of c of Some d \<Rightarrow> d < b | None \<Rightarrow> False)"

definition digits_value :: "nat \<Rightarrow> jsstring \<Rightarrow> nat" where
  "digits_value b ds =
     foldl (\<lambda>a c. a * b + (case digit_of c of Some d \<Rightarrow> d | None \<Rightarrow> 0)) 0 ds"

text \<open>The exponent part of a decimal literal: absent, or \<^verbatim>\<open>e\<close> and a signed integer.\<close>

definition exponent_part :: "jsstring \<Rightarrow> int option" where
  "exponent_part s =
     (case s of
        [] \<Rightarrow> Some 0
      | c # t \<Rightarrow>
          if c = 0x65 \<or> c = 0x45 then
            (let (sg, ds) = (case t of
                               [] \<Rightarrow> (1, [])
                             | d # u \<Rightarrow> if d = 0x2B then (1, u) else if d = 0x2D then (- 1, u)
                                        else (1, t))
             in if ds \<noteq> [] \<and> list_all (is_digit 10) ds
                then Some (sg * int (digits_value 10 ds)) else None)
          else None)"

definition unsigned_decimal :: "jsstring \<Rightarrow> jsnum" where
  "unsigned_decimal s =
     (if s = ascii ''Infinity'' then PInf
      else
        let ip = takeWhile (is_digit 10) s;
            r1 = dropWhile (is_digit 10) s;
            (fp, r2) = (case r1 of
                          [] \<Rightarrow> ([], [])
                        | c # t \<Rightarrow> if c = 0x2E
                                   then (takeWhile (is_digit 10) t, dropWhile (is_digit 10) t)
                                   else ([], r1))
        in if ip = [] \<and> fp = [] then NaN
           else (case exponent_part r2 of
                   None \<Rightarrow> NaN
                 | Some e \<Rightarrow>
                     round_double (of_nat (digits_value 10 (ip @ fp)) * pow10 (e - int (length fp)))))"

definition radix_literal :: "nat \<Rightarrow> jsstring \<Rightarrow> jsnum" where
  "radix_literal b ds =
     (if ds \<noteq> [] \<and> list_all (is_digit b) ds then round_double (of_nat (digits_value b ds))
      else NaN)"

definition string_to_number :: "jsstring \<Rightarrow> jsnum" where
  "string_to_number s =
     (let t = trim s
      in case t of
           [] \<Rightarrow> Fin 0
         | c # r \<Rightarrow>
             if c = 0x2B then unsigned_decimal r
             else if c = 0x2D then neg (unsigned_decimal r)
             else if c = 0x30 \<and> r \<noteq> [] \<and> hd r \<in> set [0x78, 0x58] then radix_literal 16 (tl r)
             else if c = 0x30 \<and> r \<noteq> [] \<and> hd r \<in> set [0x6F, 0x4F] then radix_literal 8 (tl r)
             else if c = 0x30 \<and> r \<noteq> [] \<and> hd r \<in> set [0x62, 0x42] then radix_literal 2 (tl r)
             else unsigned_decimal t)"

text \<open>
  ToString and ToNumber of an object go through its \<^verbatim>\<open>toString\<close> and \<^verbatim>\<open>valueOf\<close>
  methods. A parsed object inherits both, and converts to \<^verbatim>\<open>[object Object]\<close>, unless it
  has an own property \<^verbatim>\<open>toString\<close>: that value is not callable, and the conversion throws
  a TypeError. An array converts to the comma-joined ToString of its elements
  (\<^verbatim>\<open>undefined\<close> and \<^verbatim>\<open>null\<close> as the empty string), so it throws where an element does.
\<close>

fun to_string_throws :: "jsval \<Rightarrow> bool" where
  "to_string_throws (Obj kvs) = (ascii ''toString'' \<in> set (map fst kvs))"
| "to_string_throws (Arr xs) = list_ex to_string_throws xs"
| "to_string_throws v = False"

definition cannot_convert :: js_error where
  "cannot_convert = TypeError (ascii ''Cannot convert object to primitive value'')"

text \<open>
  A string interpolated into a template literal: \<open>template v\<close> is the ToString step,
  which only matters here where it throws.
\<close>

definition template :: "jsval \<Rightarrow> js_error + unit" where
  "template v = (if to_string_throws v then Inl cannot_convert else Inr ())"

text \<open>
  ToNumber. For an array the string is the join of its elements: the empty array is
  the empty string (\<^verbatim>\<open>0\<close>); a single element converts as its own string does (a number
  renders to the shortest text that reads back as the same double); two or more
  elements give a text with a comma, which is no numeric literal.
\<close>

fun to_number :: "jsval \<Rightarrow> js_error + jsnum" where
  "to_number Undefined = Inr NaN"
| "to_number Null = Inr (Fin 0)"
| "to_number (Bool b) = Inr (Fin (if b then 1 else 0))"
| "to_number (Num n) = Inr n"
| "to_number (Str s) = Inr (string_to_number s)"
| "to_number (Obj kvs) = (if to_string_throws (Obj kvs) then Inl cannot_convert else Inr NaN)"
| "to_number (Arr []) = Inr (Fin 0)"
| "to_number (Arr [Undefined]) = Inr (Fin 0)"
| "to_number (Arr [Null]) = Inr (Fin 0)"
| "to_number (Arr [Bool b]) = Inr NaN"
| "to_number (Arr [Num n]) = Inr n"
| "to_number (Arr [Str s]) = Inr (string_to_number s)"
| "to_number (Arr [Obj kvs]) = to_number (Obj kvs)"
| "to_number (Arr [Arr ys]) = to_number (Arr ys)"
| "to_number (Arr (x # y # zs)) =
     (if to_string_throws (Arr (x # y # zs)) then Inl cannot_convert else Inr NaN)"



section \<open>Dates\<close>

text \<open>
  A \<^verbatim>\<open>Date\<close> is its time value, the milliseconds since the epoch. \<open>civil_from_days\<close>
  gives year, month and day of a day number in the proleptic Gregorian calendar, and
  \<open>toISOString\<close> the text \<^verbatim>\<open>YYYY-MM-DDTHH:mm:ss.sssZ\<close> (a year outside 0..9999 with a sign and
  six digits); a time value out of range is an invalid date and throws a RangeError.
\<close>

definition digit_char :: "nat \<Rightarrow> char" where
  "digit_char d = ''0123456789'' ! d"

definition pad2 :: "nat \<Rightarrow> string" where
  "pad2 k = [digit_char (k div 10 mod 10), digit_char (k mod 10)]"

definition pad3 :: "nat \<Rightarrow> string" where
  "pad3 k = digit_char (k div 100 mod 10) # pad2 k"

definition pad4 :: "nat \<Rightarrow> string" where
  "pad4 k = digit_char (k div 1000 mod 10) # pad3 k"

definition pad6 :: "nat \<Rightarrow> string" where
  "pad6 k = digit_char (k div 100000 mod 10) # digit_char (k div 10000 mod 10) # pad4 k"

definition civil_from_days :: "int \<Rightarrow> int \<times> int \<times> int" where
  "civil_from_days z0 =
     (let z = z0 + 719468;
          era = z div 146097;
          doe = z mod 146097;
          yoe = (doe - doe div 1460 + doe div 36524 - doe div 146096) div 365;
          doy = doe - (365 * yoe + yoe div 4 - yoe div 100);
          mp = (5 * doy + 2) div 153;
          d = doy - (153 * mp + 2) div 5 + 1;
          m = (if mp < 10 then mp + 3 else mp - 9);
          y = yoe + era * 400
      in (if m \<le> 2 then y + 1 else y, m, d))"

definition iso_date :: "int \<Rightarrow> string" where
  "iso_date days =
     (let (y, m, d) = civil_from_days days;
          year = (if 0 \<le> y \<and> y \<le> 9999 then pad4 (nat y)
                  else (if y < 0 then ''-'' else ''+'') @ pad6 (nat \<bar>y\<bar>))
      in year @ ''-'' @ pad2 (nat m) @ ''-'' @ pad2 (nat d))"

definition toISOString :: "int \<Rightarrow> js_error + string" where
  "toISOString t =
     (if t < - 8640000000000000 \<or> 8640000000000000 < t
      then Inl (RangeError (ascii ''Invalid time value''))
      else
        let ms = t mod 86400000
        in Inr (iso_date (t div 86400000) @ ''T'' @ pad2 (nat (ms div 3600000)) @ '':''
                @ pad2 (nat (ms div 60000 mod 60)) @ '':'' @ pad2 (nat (ms div 1000 mod 60))
                @ ''.'' @ pad3 (nat (ms mod 1000)) @ ''Z''))"

text \<open>
  What \<open>buildAccidentRequest\<close> reads from its surroundings: the clock (\<^verbatim>\<open>new Date()\<close>),
  the offset of Europe/Moscow from UTC at an instant (the time zone database behind
  \<^verbatim>\<open>toLocaleString\<close>), and the offset of the process's own time zone at a local wall-clock
  time (what \<^verbatim>\<open>new Date(text)\<close> applies to a text with no zone). Offsets are in
  milliseconds, east of UTC positive.
\<close>

record clock =
  now :: int
  moscow_utc_offset :: "int \<Rightarrow> int"
  host_utc_offset :: "int \<Rightarrow> int"

text \<open>
  Lines 156 to 159. \<^verbatim>\<open>now.toLocaleString('en-US', {timeZone: 'Europe/Moscow'})\<close> prints the
  Moscow wall clock of \<open>now\<close> to the second; \<^verbatim>\<open>new Date(...)\<close> reads that text back as a
  wall clock of the process's time zone; \<^verbatim>\<open>toISOString().split('T')[0]\<close> is the UTC date
  of the resulting instant.
\<close>

definition issueDate :: "clock \<Rightarrow> js_error + jsstring" where
  "issueDate c =
     (let wall = (now c + moscow_utc_offset c (now c)) div 1000 * 1000;
          moscow = wall - host_utc_offset c wall
      in bind (toISOString moscow) (\<lambda>iso.
           let today = takeWhile (\<lambda>ch. ch \<noteq> CHR ''T'') iso
           in Inr (ascii (today @ ''T23:59:59+03:00''))))"

section \<open>The request normaliser\<close>

fun decimal :: "nat \<Rightarrow> string" where
  "decimal n = (if n < 10 then [digit_char n] else decimal (n div 10) @ [digit_char (n mod 10)])"

declare decimal.simps [simp del]

text \<open>
  The own enumerable properties that an object spread \<^verbatim>\<open>{...x}\<close> copies: those of an
  object; the indexed elements of an array; the code units of a string; none of any
  other value (\<^verbatim>\<open>undefined\<close> and \<^verbatim>\<open>null\<close> included).
\<close>

definition own_props :: "jsval \<Rightarrow> (jsstring \<times> jsval) list" where
  "own_props x =
     (case x of
        Obj kvs \<Rightarrow> kvs
      | Arr xs \<Rightarrow> zip (map (\<lambda>i. ascii (decimal i)) [0..<length xs]) xs
      | Str s \<Rightarrow> zip (map (\<lambda>i. ascii (decimal i)) [0..<length s]) (map (\<lambda>u. Str [u]) s)
      | _ \<Rightarrow> [])"

text \<open>\<^verbatim>\<open>{ ...person, type: 'individual' }\<close>: the later key overwrites a copied one in place.\<close>

definition individual :: "jsval \<Rightarrow> jsval" where
  "individual person =
     Obj (AList.update (ascii ''type'') (Str (ascii ''individual'')) (own_props person))"

fun map_e :: "('a \<Rightarrow> js_error + 'b) \<Rightarrow> 'a list \<Rightarrow> js_error + 'b list" where
  "map_e f [] = Inr []"
| "map_e f (x # xs) = bind (f x) (\<lambda>y. bind (map_e f xs) (\<lambda>ys. Inr (y # ys)))"

text \<open>
  \<^verbatim>\<open>xs.map(f)\<close>: \<^verbatim>\<open>Array.prototype.map\<close> on an array; reading \<^verbatim>\<open>map\<close> of \<^verbatim>\<open>undefined\<close> or
  \<^verbatim>\<open>null\<close> throws, and on any other value \<^verbatim>\<open>map\<close> is not a function.
\<close>

definition array_map :: "string \<Rightarrow> jsval \<Rightarrow> (jsval \<Rightarrow> js_error + jsval) \<Rightarrow> js_error + jsval" where
  "array_map path xs f =
     (case xs of
        Undefined \<Rightarrow> Inl (cannot_read xs ''map'')
      | Null \<Rightarrow> Inl (cannot_read xs ''map'')
      | Arr ys \<Rightarrow> bind (map_e f ys) (\<lambda>zs. Inr (Arr zs))
      | _ \<Rightarrow> Inl (TypeError (ascii (path @ ''.map is not a function''))))"

text \<open>Line 173: \<^verbatim>\<open>Number(c.sumInsured) || 50000\<close>.\<close>

definition sumInsured_coerce :: "jsval \<Rightarrow> js_error + jsval" where
  "sumInsured_coerce v = bind (to_number v) (\<lambda>n. Inr (or_else (Num n) (Num (Fin 50000))))"

definition cover :: "jsval \<Rightarrow> js_error + jsval" where
  "cover c =
     bind (get c ''sumInsured'') (\<lambda>s.
     bind (sumInsured_coerce s) (\<lambda>n.
     Inr (Obj [(ascii ''sumInsured'', n)])))"

definition insured :: "jsval \<Rightarrow> js_error + jsval" where
  "insured i =
     bind (get i ''person'') (\<lambda>person.
     bind (get i ''additionalFactors'') (\<lambda>additionalFactors.
     Inr (Obj [(ascii ''person'', individual person),
               (ascii ''additionalFactors'', additionalFactors)])))"

text \<open>Lines 154 to 180, in the order the object literal evaluates its parts.\<close>

definition buildAccidentRequest :: "clock \<Rightarrow> jsval \<Rightarrow> js_error + jsval" where
  "buildAccidentRequest c input =
     bind (issueDate c) (\<lambda>issue.
     bind (get input ''product'') (\<lambda>product.
     bind (get input ''startDate'') (\<lambda>startDate.
     bind (get input ''endDate'') (\<lambda>endDate.
     bind (get input ''policyHolder'') (\<lambda>policyHolder.
     bind (get policyHolder ''person'') (\<lambda>person.
     bind (get policyHolder ''address'') (\<lambda>address.
     bind (get policyHolder ''phone'') (\<lambda>phone.
     bind (get policyHolder ''email'') (\<lambda>email.
     bind (get input ''insuredObject'') (\<lambda>insuredObject.
     bind (get insuredObject ''covers'') (\<lambda>covers.
     bind (array_map ''input.insuredObject.covers'' covers cover) (\<lambda>covers'.
     bind (get insuredObject ''insureds'') (\<lambda>insureds.
     bind (array_map ''input.insuredObject.insureds'' insureds insured) (\<lambda>insureds'.
     Inr (Obj
       [(ascii ''product'', or_else product (Obj [(ascii ''code'', Str (ascii ''ACCIDENT''))])),
        (ascii ''startDate'', startDate),
        (ascii ''endDate'', endDate),
        (ascii ''issueDate'', Str issue),
        (ascii ''policyHolder'', Obj
          [(ascii ''person'', individual person),
           (ascii ''address'', address),
           (ascii ''phone'', phone),
           (ascii ''email'', email)]),
        (ascii ''insuredObject'', Obj
          [(ascii ''covers'', covers'),
           (ascii ''insureds'', insureds')])])))))))))))))))"



section \<open>Serialisation and responses\<close>

text \<open>
  \<^verbatim>\<open>JSON.stringify(v)\<close> is represented by the document its text denotes, \<open>json_tree v\<close>:
  a property whose value is \<^verbatim>\<open>undefined\<close> is left out, \<^verbatim>\<open>undefined\<close> in an array and a
  number that is not finite become \<^verbatim>\<open>null\<close>. The characters of the text (the rendering
  of a double among them) are not modelled.
\<close>

fun json_tree :: "jsval \<Rightarrow> jsval" where
  "json_tree (Num NaN) = Null"
| "json_tree (Num PInf) = Null"
| "json_tree (Num NInf) = Null"
| "json_tree (Arr xs) = Arr (map (\<lambda>x. if x = Undefined then Null else json_tree x) xs)"
| "json_tree (Obj kvs) =
     Obj (map (\<lambda>(k, v). (k, json_tree v)) (filter (\<lambda>(k, v). v \<noteq> Undefined) kvs))"
| "json_tree v = v"

datatype body = JsonBody jsval | Base64Body "8 word list"

datatype header = ContentType string | ContentDispositionAttachment jsval

text \<open>
  The object a handler returns. A response without \<^verbatim>\<open>headers\<close> has the empty list, and
  one without \<^verbatim>\<open>isBase64Encoded\<close> has \<open>False\<close>.
\<close>

record response =
  statusCode :: nat
  headers :: "header list"
  body :: body
  isBase64Encoded :: bool

definition json_response :: "nat \<Rightarrow> jsval \<Rightarrow> response" where
  "json_response code v =
     \<lparr>statusCode = code, headers = [], body = JsonBody (json_tree v), isBase64Encoded = False\<rparr>"

section \<open>External collaborators\<close>

text \<open>
  A parameter of a database query, as \<^verbatim>\<open>TypedValues\<close> wraps it: \<open>Utf8Json v\<close> is the text
  \<^verbatim>\<open>JSON.stringify\<close> gave for \<open>v\<close>.
\<close>

datatype ydb_value = Timestamp int | Double jsval | Utf8 jsval | Utf8Json jsval

record db_write =
  db_table :: string
  db_params :: "(string \<times> ydb_value) list"

text \<open>
  The calls that leave the process, in the order they are made. A request to the partner
  carries the bearer token first; a URL built by a template literal is represented by
  the value interpolated into it.
\<close>

datatype event =
    MetadataGet
  | DriverReady
  | SessionAcquire
  | SessionRelease
  | TokenPost nat
  | Sleep nat
  | QuotePost jsval jsval
  | PolicyPost jsval jsval
  | InstallmentPut jsval jsval jsval
  | FilesGet jsval jsval
  | PdfGet jsval jsval
  | PutObject jsval "8 word list"
  | ExecuteQuery db_write

text \<open>
  What the surroundings answer: the environment variables, the clock, and the outcome of
  every external call (\<open>Inl\<close> a rejection, \<open>Inr\<close> the \<^verbatim>\<open>data\<close> of the response). The
  token exchange is asked once per attempt, so its outcome depends on the attempt.
\<close>

record world =
  clock :: clock
  later :: int
  env :: "string \<Rightarrow> jsstring option"
  metadata_get :: "js_error + jsval"
  new_driver :: "js_error + unit"
  driver_ready :: "js_error + bool"
  acquire_session :: "js_error + unit"
  token_post :: "nat \<Rightarrow> js_error + jsval"
  quote_post :: "jsval \<Rightarrow> jsval \<Rightarrow> js_error + jsval"
  policy_post :: "jsval \<Rightarrow> jsval \<Rightarrow> js_error + jsval"
  installment_put :: "jsval \<Rightarrow> jsval \<Rightarrow> jsval \<Rightarrow> js_error + jsval"
  files_get :: "jsval \<Rightarrow> jsval \<Rightarrow> js_error + jsval"
  pdf_get :: "jsval \<Rightarrow> jsval \<Rightarrow> js_error + 8 word list"
  buffer_from_base64 :: "jsval \<Rightarrow> js_error + 8 word list"
  put_object :: "jsval \<Rightarrow> 8 word list \<Rightarrow> js_error + unit"
  get_signed_url :: "jsval \<Rightarrow> js_error + jsstring"
  execute_query :: "db_write \<Rightarrow> js_error + unit"

text \<open>
  An asynchronous computation: the external calls it made, and how its promise settled
  (\<open>Inl\<close> rejected, \<open>Inr\<close> fulfilled).
\<close>

type_synonym 'a io = "event list \<times> (js_error + 'a)"

definition io_local :: "js_error + 'a \<Rightarrow> 'a io" where
  "io_local r = ([], r)"

definition io_call :: "event \<Rightarrow> js_error + 'a \<Rightarrow> 'a io" where
  "io_call ev outcome = ([ev], outcome)"

definition io_bind :: "'a io \<Rightarrow> ('a \<Rightarrow> 'b io) \<Rightarrow> 'b io" where
  "io_bind m f =
     (case m of
        (t, Inl e) \<Rightarrow> (t, Inl e)
      | (t, Inr x) \<Rightarrow> (case f x of (t', r) \<Rightarrow> (t @ t', r)))"

section \<open>Credentials\<close>

definition CONFIG_VSK_API_RETRIES :: nat where
  "CONFIG_VSK_API_RETRIES = 3"

definition missing :: "(string \<Rightarrow> jsstring option) \<Rightarrow> string \<Rightarrow> bool" where
  "missing e k = (case e k of None \<Rightarrow> True | Some v \<Rightarrow> v = [])"

fun checkEnv :: "(string \<Rightarrow> jsstring option) \<Rightarrow> string list \<Rightarrow> js_error + unit" where
  "checkEnv e [] = Inr ()"
| "checkEnv e (key # vars) =
     (if missing e key then Inl (Error (ascii (''Missing env: '' @ key))) else checkEnv e vars)"

definition msg_empty_token :: jsstring where
  "msg_empty_token = [0x41F, 0x443, 0x441, 0x442, 0x43E, 0x439, 0x20, 0x442, 0x43E, 0x43A,
     0x435, 0x43D, 0x20, 0x432, 0x20, 0x43E, 0x442, 0x432, 0x435, 0x442, 0x435]"

definition msg_iam_failed :: jsstring where
  "msg_iam_failed = [0x41D, 0x435, 0x20, 0x443, 0x434, 0x430, 0x43B, 0x43E, 0x441, 0x44C,
     0x20, 0x43F, 0x43E, 0x43B, 0x443, 0x447, 0x438, 0x442, 0x44C, 0x20, 0x49, 0x41, 0x4D,
     0x20, 0x442, 0x43E, 0x43A, 0x435, 0x43D, 0x20, 0x430, 0x432, 0x442, 0x43E, 0x43C, 0x430,
     0x442, 0x438, 0x447, 0x435, 0x441, 0x43A, 0x438]"

definition msg_ydb_params :: jsstring where
  "msg_ydb_params = [0x41D, 0x435, 0x20, 0x437, 0x430, 0x434, 0x430, 0x43D, 0x44B, 0x20,
     0x43F, 0x430, 0x440, 0x430, 0x43C, 0x435, 0x442, 0x440, 0x44B, 0x20, 0x59, 0x44, 0x42]"

definition msg_pdf_not_found :: jsstring where
  "msg_pdf_not_found = [0x50, 0x44, 0x46, 0x20, 0x43D, 0x435, 0x20, 0x43D, 0x430, 0x439,
     0x434, 0x435, 0x43D, 0x20, 0x432, 0x20, 0x43E, 0x442, 0x432, 0x435, 0x442, 0x435, 0x20,
     0x412, 0x421, 0x41A]"

definition msg_pdf_error :: jsstring where
  "msg_pdf_error = [0x41E, 0x448, 0x438, 0x431, 0x43A, 0x430, 0x20, 0x43F, 0x440, 0x438,
     0x20, 0x43F, 0x43E, 0x43B, 0x443, 0x447, 0x435, 0x43D, 0x438, 0x438, 0x20, 0x50, 0x44,
     0x46]"

text \<open>
  Lines 31 to 46. Whatever fails inside the \<^verbatim>\<open>try\<close> (the request, or the empty-token
  check) is replaced by one fixed error.
\<close>

definition fetchIamToken :: "world \<Rightarrow> jsval io" where
  "fetchIamToken w =
     (case bind (metadata_get w) (\<lambda>data.
             if \<not> truthy data then Inl (Error msg_empty_token)
             else bind (get data ''access_token'') (\<lambda>access_token.
                    if \<not> truthy access_token then Inl (Error msg_empty_token)
                    else Inr access_token)) of
        Inl err \<Rightarrow> ([MetadataGet], Inl (Error msg_iam_failed))
      | Inr access_token \<Rightarrow> ([MetadataGet], Inr access_token))"

text \<open>
  Lines 48 to 71. \<open>driverInstance\<close> is the module-level variable: whether a driver has been
  stored. The result gives its new state first.
\<close>

definition getDriver :: "world \<Rightarrow> bool \<Rightarrow> bool \<times> unit io" where
  "getDriver w driverInstance =
     (if missing (env w) ''YDB_ENDPOINT'' \<or> missing (env w) ''YDB_DATABASE''
      then (driverInstance, [], Inl (Error msg_ydb_params))
      else if driverInstance then (True, [], Inr ())
      else
        (case fetchIamToken w of
           (t, Inl e) \<Rightarrow> (False, t, Inl e)
         | (t, Inr iamToken) \<Rightarrow>
             (case new_driver w of
                Inl e \<Rightarrow> (False, t, Inl e)
              | Inr _ \<Rightarrow>
                  (case driver_ready w of
                     Inl e \<Rightarrow> (True, t @ [DriverReady], Inl e)
                   | Inr ready \<Rightarrow>
                       if \<not> ready
                       then (True, t @ [DriverReady], Inl (Error (ascii ''YDB not ready'')))
                       else (True, t @ [DriverReady], Inr ())))))"

text \<open>
  Lines 78 to 99. \<open>attempt w i\<close> is the body of the \<^verbatim>\<open>try\<close> in round \<open>i\<close>: the request, and
  the reading of \<^verbatim>\<open>resp.data.access_token\<close>, so a TypeError there is handled like a failed
  request. \<open>attempts w i\<close> is the loop from round \<open>i\<close> on; falling out of the loop returns
  \<^verbatim>\<open>undefined\<close>.
\<close>

definition attempt :: "world \<Rightarrow> nat \<Rightarrow> js_error + jsval" where
  "attempt w i = bind (token_post w i) (\<lambda>data. get data ''access_token'')"

function attempts :: "world \<Rightarrow> nat \<Rightarrow> jsval io" where
  "attempts w i =
     (if i < CONFIG_VSK_API_RETRIES then
        (case attempt w i of
           Inr access_token \<Rightarrow> ([TokenPost i], Inr access_token)
         | Inl err \<Rightarrow>
             if i = CONFIG_VSK_API_RETRIES - 1 then ([TokenPost i], Inl err)
             else (case attempts w (Suc i) of
                     (t, r) \<Rightarrow> (TokenPost i # Sleep (1000 * (i + 1)) # t, r)))
      else ([], Inr Undefined))"
  by pat_completeness auto
termination
  by (relation "measure (\<lambda>(w, i). CONFIG_VSK_API_RETRIES - i)") auto

declare attempts.simps [simp del]

definition getVskToken :: "world \<Rightarrow> jsval io" where
  "getVskToken w =
     (case checkEnv (env w) [''VSK_CLIENT_ID'', ''VSK_CLIENT_SECRET''] of
        Inl e \<Rightarrow> ([], Inl e)
      | Inr _ \<Rightarrow> attempts w 0)"



section \<open>The handlers\<close>

text \<open>
  Lines 182 to 214; \<open>calc_query\<close> is the query of lines 191 to 205 with its parameters.
  The arguments of \<^verbatim>\<open>executeQuery\<close> are evaluated before the call, so \<^verbatim>\<open>data.premium\<close> is
  read before the write; \<^verbatim>\<open>data.insuredObject.covers\<close> is read after it.
\<close>

definition calc_query :: "int \<Rightarrow> jsval \<Rightarrow> jsval \<Rightarrow> jsval \<Rightarrow> db_write" where
  "calc_query ts premium req data =
     \<lparr>db_table = ''insurance_calculations'',
      db_params =
        [(''$ts'', Timestamp ts),
         (''$price'', Double (or_else premium (Num (Fin 0)))),
         (''$reqData'', Utf8Json (json_tree req)),
         (''$respData'', Utf8Json (json_tree data))]\<rparr>"

definition handleCalc :: "world \<Rightarrow> jsval \<Rightarrow> jsval \<Rightarrow> response io" where
  "handleCalc w token params =
     io_bind (io_local (buildAccidentRequest (clock w) params)) (\<lambda>req.
     io_bind (io_local (template token)) (\<lambda>_.
     io_bind (io_call (QuotePost token req) (quote_post w token req)) (\<lambda>data.
     io_bind (io_local (get data ''premium'')) (\<lambda>premium.
     let q = calc_query (later w) premium req data in
     io_bind (io_call (ExecuteQuery q) (execute_query w q)) (\<lambda>_.
     io_bind (io_local (get data ''draftId'')) (\<lambda>draftId.
     io_bind (io_local (get data ''insuredObject'')) (\<lambda>insuredObject.
     io_bind (io_local (get insuredObject ''covers'')) (\<lambda>covers.
     io_local (Inr (json_response 200 (Obj
       [(ascii ''premium'', premium),
        (ascii ''requestId'', draftId),
        (ascii ''covers'', covers)])))))))))))"

text \<open>Lines 216 to 269; \<open>pay_query\<close> is the query of lines 240 to 258.\<close>

definition pay_query ::
    "int \<Rightarrow> jsval \<Rightarrow> jsval \<Rightarrow> jsval \<Rightarrow> jsval \<Rightarrow> jsval \<Rightarrow> db_write" where
  "pay_query ts policyNumber premium paymentLink ext req =
     \<lparr>db_table = ''insurance_payments'',
      db_params =
        [(''$ts'', Timestamp ts),
         (''$polNo'', Utf8 policyNumber),
         (''$prem'', Double premium),
         (''$link'', Utf8 paymentLink),
         (''$ext'', Utf8 (or_else ext (Str []))),
         (''$rdata'', Utf8Json (json_tree req))]\<rparr>"

definition handlePay :: "world \<Rightarrow> jsval \<Rightarrow> jsval \<Rightarrow> response io" where
  "handlePay w token params =
     io_bind (io_local (buildAccidentRequest (clock w) params)) (\<lambda>req.
     io_bind (io_local (template token)) (\<lambda>_.
     io_bind (io_call (PolicyPost token req) (policy_post w token req)) (\<lambda>policy.
     io_bind (io_local (get policy ''policyNumber'')) (\<lambda>policyNumber.
     io_bind (io_local (template policyNumber)) (\<lambda>_.
     io_bind (io_local (get policy ''premium'')) (\<lambda>premium.
     io_bind (io_local (get params ''successUrl'')) (\<lambda>successUrl.
     io_bind (io_local (get params ''failUrl'')) (\<lambda>failUrl.
     let payment = Obj
           [(ascii ''amount'', premium),
            (ascii ''paymentType'', Str (ascii ''CARD'')),
            (ascii ''successUrl'', successUrl),
            (ascii ''failUrl'', failUrl)]
     in
     io_bind (io_call (InstallmentPut token policyNumber payment)
                (installment_put w token policyNumber payment)) (\<lambda>pay.
     io_bind (io_local (get pay ''paymentLink'')) (\<lambda>paymentLink.
     io_bind (io_local (get params ''id'')) (\<lambda>id.
     let q = pay_query (later w) policyNumber premium paymentLink id req in
     io_bind (io_call (ExecuteQuery q) (execute_query w q)) (\<lambda>_.
     io_local (Inr (json_response 200 (Obj
       [(ascii ''paymentLink'', paymentLink),
        (ascii ''policyNumber'', policyNumber),
        (ascii ''premium'', premium),
        (ascii ''id'', id)])))))))))))))))"

text \<open>Lines 273 to 290.\<close>

definition handleCreatePolicy :: "world \<Rightarrow> jsval \<Rightarrow> jsval \<Rightarrow> jsval io" where
  "handleCreatePolicy w token params =
     io_bind (io_local (buildAccidentRequest (clock w) params)) (\<lambda>req.
     io_bind (io_local (template token)) (\<lambda>_.
     io_bind (io_call (PolicyPost token req) (policy_post w token req)) (\<lambda>policy.
     io_bind (io_local (get policy ''policyNumber'')) (\<lambda>policyNumber.
     io_bind (io_local (get policy ''premium'')) (\<lambda>premium.
     io_bind (io_local (get policy ''draftId'')) (\<lambda>draftId.
     io_local (Inr (Obj
       [(ascii ''policyNumber'', policyNumber),
        (ascii ''premium'', premium),
        (ascii ''draftId'', draftId)]))))))))"

text \<open>
  Lines 292 to 343. \<^verbatim>\<open>Buffer.from(text, 'base64')\<close> and the signing of the retrieval URL
  are library functions, taken from the surroundings; only \<^verbatim>\<open>putObject\<close> is a call.
\<close>

definition handleSample :: "world \<Rightarrow> jsval \<Rightarrow> jsval \<Rightarrow> response io" where
  "handleSample w token params =
     io_bind (handleCreatePolicy w token params) (\<lambda>policyData.
     io_bind (io_local (get policyData ''policyNumber'')) (\<lambda>policyNumber.
     io_bind (io_local (get policyData ''premium'')) (\<lambda>premium.
     io_bind (io_local (template policyNumber)) (\<lambda>_.
     io_bind (io_local (template token)) (\<lambda>_.
     io_bind (io_call (FilesGet token policyNumber) (files_get w token policyNumber)) (\<lambda>data.
     io_bind (io_local (get data ''policyPDF'')) (\<lambda>policyPDF.
     if \<not> truthy policyPDF then io_local (Inl (Error msg_pdf_not_found))
     else
       io_bind (io_local (buffer_from_base64 w policyPDF)) (\<lambda>bytes.
       io_bind (io_call (PutObject policyNumber bytes) (put_object w policyNumber bytes)) (\<lambda>_.
       io_bind (io_local (get_signed_url w policyNumber)) (\<lambda>signedUrl.
       io_bind (io_local (toISOString (later w + 3600 * 1000))) (\<lambda>expiresAt.
       io_local (Inr (json_response 200 (Obj
         [(ascii ''policyNumber'', policyNumber),
          (ascii ''premium'', premium),
          (ascii ''pdfUrl'', Str signedUrl),
          (ascii ''expiresAt'', Str (ascii expiresAt))]))))))))))))))"

text \<open>
  Lines 346 to 380. Everything after the check of \<^verbatim>\<open>body.policy\<close> stands inside the
  \<^verbatim>\<open>try\<close>, and the request is awaited there.
\<close>

definition handlePdf :: "world \<Rightarrow> jsval \<Rightarrow> jsval \<Rightarrow> response io" where
  "handlePdf w token params =
     io_bind (io_local (get params ''policy'')) (\<lambda>policy.
     if \<not> truthy policy
     then io_local (Inr (json_response 400 (Obj [(ascii ''error'', Str (ascii ''policy missing''))])))
     else
       (case io_bind (io_local (template policy)) (\<lambda>_.
             io_bind (io_local (template token)) (\<lambda>_.
             io_call (PdfGet token policy) (pdf_get w token policy))) of
          (t, Inr data) \<Rightarrow>
            (t, Inr \<lparr>statusCode = 200,
                     headers = [ContentType ''application/pdf'', ContentDispositionAttachment policy],
                     body = Base64Body data,
                     isBase64Encoded = True\<rparr>)
        | (t, Inl error) \<Rightarrow>
            (t, Inr (json_response 500 (Obj
                  [(ascii ''error'', Str msg_pdf_error),
                   (ascii ''details'', Str (message error))])))))"

text \<open>
  \<^verbatim>\<open>driver.tableClient.withSession(callback)\<close> of the database driver: it takes a session
  from the pool, runs the callback, gives the session back, and settles as the callback
  did.
\<close>

definition withSession :: "world \<Rightarrow> 'a io \<Rightarrow> 'a io" where
  "withSession w callback =
     (case acquire_session w of
        Inl e \<Rightarrow> ([SessionAcquire], Inl e)
      | Inr _ \<Rightarrow> (case callback of (t, r) \<Rightarrow> (SessionAcquire # t @ [SessionRelease], r)))"

text \<open>Lines 395 to 417: the callback given to \<^verbatim>\<open>withSession\<close>.\<close>

definition session_callback :: "world \<Rightarrow> jsval \<Rightarrow> response io" where
  "session_callback w params =
     io_bind (getVskToken w) (\<lambda>token.
     io_bind (io_local (get params ''action'')) (\<lambda>action.
     if action = Str (ascii ''calc'') then handleCalc w token params
     else if action = Str (ascii ''pay'') then handlePay w token params
     else if action = Str (ascii ''sample'') then handleSample w token params
     else if action = Str (ascii ''pdf'') then handlePdf w token params
     else io_local (Inr (json_response 400 (Obj [(ascii ''error'', Str (ascii ''Unknown action''))])))))"

text \<open>
  Lines 383 to 425, from the parsed body on (\<open>Null\<close> where \<^verbatim>\<open>parseRequestBody\<close> gave
  \<^verbatim>\<open>null\<close>). Inside the \<^verbatim>\<open>try\<close>, \<^verbatim>\<open>getDriver()\<close> is awaited, so its rejection reaches the
  \<^verbatim>\<open>catch\<close>. The promise of \<^verbatim>\<open>withSession\<close> is returned without \<^verbatim>\<open>await\<close>: the \<^verbatim>\<open>try\<close>
  block is left before that promise settles, and the promise of the handler settles
  as it does, a rejection included.
\<close>

definition handler :: "world \<Rightarrow> bool \<Rightarrow> jsval \<Rightarrow> bool \<times> response io" where
  "handler w driverInstance parsed =
     (let action = (case get parsed ''action'' of Inl _ \<Rightarrow> Undefined | Inr a \<Rightarrow> a)
      in if \<not> truthy action
         then (driverInstance, [],
               Inr (json_response 400 (Obj [(ascii ''error'', Str (ascii ''action missing''))])))
         else
           (case getDriver w driverInstance of
              (d, t, Inl e) \<Rightarrow>
                (d, t, Inr (json_response 500 (Obj [(ascii ''error'', Str (message e))])))
            | (d, t, Inr _) \<Rightarrow>
                (case withSession w (session_callback w parsed) of
                   (t', r) \<Rightarrow> (d, t @ t', r))))"



section \<open>A stubbed run\<close>

text \<open>
  The end-to-end scenario of the specification: the client input, under a given action,
  and surroundings in which every collaborator answers, the partner with the quote
  \<^verbatim>\<open>{premium: 1234.5, draftId: "D1", insuredObject: {covers: [{sumInsured: 100000}]}}\<close>. The
  clock stands at 2026-11-02T22:30:00Z, which is 01:30 on 3 November in Moscow, and the
  process runs in UTC.
\<close>

definition scenario_person :: jsval where
  "scenario_person = Obj
     [(ascii ''firstName'', Str (ascii ''A'')),
      (ascii ''lastName'', Str (ascii ''B'')),
      (ascii ''birthDate'', Str (ascii ''1990-01-01''))]"

definition scenario_input :: "string \<Rightarrow> jsval" where
  "scenario_input action = Obj
     [(ascii ''action'', Str (ascii action)),
      (ascii ''startDate'', Str (ascii ''2025-01-01'')),
      (ascii ''endDate'', Str (ascii ''2026-01-01'')),
      (ascii ''policyHolder'', Obj
        [(ascii ''person'', scenario_person),
         (ascii ''address'', Str (ascii ''x'')),
         (ascii ''phone'', Str (ascii ''+7'')),
         (ascii ''email'', Str (ascii ''a@b.c''))]),
      (ascii ''insuredObject'', Obj
        [(ascii ''covers'', Arr [Obj [(ascii ''sumInsured'', Num (Fin 100000))]]),
         (ascii ''insureds'', Arr [Obj [(ascii ''person'', scenario_person)]])])]"

definition scenario_quote :: jsval where
  "scenario_quote = Obj
     [(ascii ''premium'', Num (Fin (2469 / 2))),
      (ascii ''draftId'', Str (ascii ''D1'')),
      (ascii ''insuredObject'', Obj
        [(ascii ''covers'', Arr [Obj [(ascii ''sumInsured'', Num (Fin 100000))]])])]"

text \<open>The payload that the scenario input normalises to, given the issue date.\<close>

definition scenario_request :: "jsstring \<Rightarrow> jsval" where
  "scenario_request issue = Obj
     [(ascii ''product'', Obj [(ascii ''code'', Str (ascii ''ACCIDENT''))]),
      (ascii ''startDate'', Str (ascii ''2025-01-01'')),
      (ascii ''endDate'', Str (ascii ''2026-01-01'')),
      (ascii ''issueDate'', Str issue),
      (ascii ''policyHolder'', Obj
        [(ascii ''person'', Obj
           [(ascii ''firstName'', Str (ascii ''A'')),
            (ascii ''lastName'', Str (ascii ''B'')),
            (ascii ''birthDate'', Str (ascii ''1990-01-01'')),
            (ascii ''type'', Str (ascii ''individual''))]),
         (ascii ''address'', Str (ascii ''x'')),
         (ascii ''phone'', Str (ascii ''+7'')),
         (ascii ''email'', Str (ascii ''a@b.c''))]),
      (ascii ''insuredObject'', Obj
        [(ascii ''covers'', Arr [Obj [(ascii ''sumInsured'', Num (Fin 100000))]]),
         (ascii ''insureds'', Arr
           [Obj [(ascii ''person'', Obj
                   [(ascii ''firstName'', Str (ascii ''A'')),
                    (ascii ''lastName'', Str (ascii ''B'')),
                    (ascii ''birthDate'', Str (ascii ''1990-01-01'')),
                    (ascii ''type'', Str (ascii ''individual''))]),
                 (ascii ''additionalFactors'', Undefined)]])])]"

definition stub_clock :: clock where
  "stub_clock =
     \<lparr>now = 1793658600000,
      moscow_utc_offset = (\<lambda>t. 10800000),
      host_utc_offset = (\<lambda>t. 0)\<rparr>"

definition stub_env :: "string \<Rightarrow> jsstring option" where
  "stub_env k =
     (if k \<in> set [''YDB_ENDPOINT'', ''YDB_DATABASE'', ''VSK_CLIENT_ID'', ''VSK_CLIENT_SECRET'']
      then Some (ascii ''set'') else None)"

definition stub_world :: world where
  "stub_world =
     \<lparr>clock = stub_clock,
      later = 1793658601000,
      env = stub_env,
      metadata_get = Inr (Obj [(ascii ''access_token'', Str (ascii ''iam''))]),
      new_driver = Inr (),
      driver_ready = Inr True,
      acquire_session = Inr (),
      token_post = (\<lambda>i. Inr (Obj [(ascii ''access_token'', Str (ascii ''tok''))])),
      quote_post = (\<lambda>token req. Inr scenario_quote),
      policy_post = (\<lambda>token req. Inr (Obj
        [(ascii ''policyNumber'', Str (ascii ''P1'')),
         (ascii ''premium'', Num (Fin (2469 / 2))),
         (ascii ''draftId'', Str (ascii ''D1''))])),
      installment_put = (\<lambda>token policyNumber payment. Inr (Obj
        [(ascii ''paymentLink'', Str (ascii ''https://pay''))])),
      files_get = (\<lambda>token policyNumber. Inr (Obj [(ascii ''policyPDF'', Str (ascii ''JVBERg==''))])),
      pdf_get = (\<lambda>token policy. Inr [0x25, 0x50, 0x44, 0x46]),
      buffer_from_base64 = (\<lambda>v. Inr [0x25, 0x50, 0x44, 0x46]),
      put_object = (\<lambda>key bytes. Inr ()),
      get_signed_url = (\<lambda>key. Inr (ascii ''https://signed'')),
      execute_query = (\<lambda>q. Inr ())\<rparr>"



definition flaky_world :: world where
  "flaky_world =
     stub_world\<lparr>token_post :=
       (\<lambda>i. if i < 2 then Inl (External (ascii ''timeout''))
            else Inr (Obj [(ascii ''access_token'', Str (ascii ''tok''))]))\<rparr>"

definition bare_world :: world where
  "bare_world = stub_world\<lparr>env := (\<lambda>k. None)\<rparr>"

definition moscow_host_clock :: clock where
  "moscow_host_clock = stub_clock\<lparr>host_utc_offset := (\<lambda>t. 10800000)\<rparr>"

definition db_down_world :: world where
  "db_down_world = stub_world\<lparr>execute_query := (\<lambda>q. Inl (External (ascii ''db down'')))\<rparr>"


definition quote_down_world :: world where
  "quote_down_world = stub_world\<lparr>quote_post := (\<lambda>token req. Inl (External (ascii ''status 502'')))\<rparr>"

definition zero_quote :: jsval where
  "zero_quote = Obj
     [(ascii ''premium'', Num (Fin 0)),
      (ascii ''draftId'', Str (ascii ''D2'')),
      (ascii ''insuredObject'', Obj [(ascii ''covers'', Arr [])])]"

definition zero_quote_world :: world where
  "zero_quote_world = stub_world\<lparr>quote_post := (\<lambda>token req. Inr zero_quote)\<rparr>"

section \<open>Notions the properties are stated with\<close>

text \<open>The payload with its \<^verbatim>\<open>issueDate\<close> replaced.\<close>

definition with_issueDate :: "jsstring \<Rightarrow> jsval \<Rightarrow> jsval" where
  "with_issueDate d out =
     (case out of
        Obj kvs \<Rightarrow> Obj (AList.update (ascii ''issueDate'') (Str d) kvs)
      | _ \<Rightarrow> out)"

text \<open>
  A value as a JSON text gives it: no \<^verbatim>\<open>undefined\<close> inside, and every number finite.
  The \<^verbatim>\<open>data\<close> of a JSON response is such a value.
\<close>

fun is_json :: "jsval \<Rightarrow> bool" where
  "is_json Undefined = False"
| "is_json (Num NaN) = False"
| "is_json (Num PInf) = False"
| "is_json (Num NInf) = False"
| "is_json (Arr xs) = list_all is_json xs"
| "is_json (Obj kvs) = list_all (\<lambda>kv. is_json (snd kv)) kvs"
| "is_json v = True"

text \<open>
  The calls that do the business of an action or leave a record: requests to the
  partner's sales API, the write to object storage and the database query. The rest
  (metadata token, driver, session, token exchange and its back-off) prepares them.
\<close>

fun business_call :: "event \<Rightarrow> bool" where
  "business_call (QuotePost token req) = True"
| "business_call (PolicyPost token req) = True"
| "business_call (InstallmentPut token policyNumber payment) = True"
| "business_call (FilesGet token policyNumber) = True"
| "business_call (PdfGet token policy) = True"
| "business_call (PutObject key bytes) = True"
| "business_call (ExecuteQuery q) = True"
| "business_call ev = False"

section \<open>Basic facts\<close>

lemma bind_simps [simp]:
  "bind (Inl e) f = Inl e"
  "bind (Inr x) f = f x"
  by (simp_all add: bind_def)

lemma io_bind_simps [simp]:
  "io_bind (t, Inl e) f = (t, Inl e)"
  "io_bind (t, Inr x) f = (t @ fst (f x), snd (f x))"
  "io_bind (io_local (Inl e)) f = ([], Inl e)"
  "io_bind (io_local (Inr x)) f = f x"
  by (simp_all add: io_bind_def io_local_def split: prod.splits)

lemma unat_of_char16: "unat (of_char c :: 16 word) = of_char c"
proof -
  have "(of_char c :: 16 word) = of_nat (of_char c)"
    by (simp only: of_nat_of_char)
  moreover have "(of_char c :: nat) < 2 ^ 16"
    by (rule less_trans [OF nat_of_char_less_256]) simp
  ultimately show ?thesis
    by (simp add: unat_of_nat)
qed

lemma of_char16_inj: "((of_char c :: 16 word) = of_char d) = (c = d)"
proof
  assume "(of_char c :: 16 word) = of_char d"
  then have "unat (of_char c :: 16 word) = unat (of_char d :: 16 word)"
    by simp
  then have "(of_char c :: nat) = of_char d"
    by (simp only: unat_of_char16)
  then show "c = d"
    by (rule of_char_eqI)
qed simp

lemma ascii_inj [simp]: "(ascii a = ascii b) = (a = b)"
  unfolding ascii_def by (simp add: inj_map_eq_map inj_def of_char16_inj)

lemma ascii_Nil [simp]: "(ascii s = []) = (s = [])"
  by (simp add: ascii_def)

lemma ascii_append: "ascii (a @ b) = ascii a @ ascii b"
  by (simp add: ascii_def)

lemma get_Obj_Cons [simp]:
  "get (Obj ((ascii k', v) # kvs)) k = (if k' = k then Inr v else get (Obj kvs) k)"
  by (simp add: get_def)

lemma get_Obj_Nil [simp]: "get (Obj []) k = Inr Undefined"
  by (simp add: get_def)

lemma get_Inl_iff: "(get x k = Inl e) = ((x = Undefined \<or> x = Null) \<and> e = cannot_read x k)"
  by (auto simp: get_def split: jsval.splits)

lemma io_bind_call [simp]:
  "io_bind (io_call ev (Inl e)) f = ([ev], Inl e)"
  "io_bind (io_call ev (Inr x)) f = (ev # fst (f x), snd (f x))"
  by (simp_all add: io_bind_def io_call_def split: prod.splits)

section \<open>Partner token acquisition\<close>

lemma attempts_last: "attempts w 2 = ([TokenPost 2], attempt w 2)"
  by (subst attempts.simps) (simp add: CONFIG_VSK_API_RETRIES_def split: sum.splits)

lemma attempts_second:
  "attempt w 1 = Inl e \<Longrightarrow>
   attempts w (Suc 0) = (TokenPost 1 # Sleep 2000 # fst (attempts w 2), snd (attempts w 2))"
  by (subst attempts.simps)
     (simp add: CONFIG_VSK_API_RETRIES_def numeral_2_eq_2 split: prod.splits)

lemma attempts_first:
  "attempt w 0 = Inl e \<Longrightarrow>
   attempts w 0 = (TokenPost 0 # Sleep 1000 # fst (attempts w (Suc 0)), snd (attempts w (Suc 0)))"
  by (subst attempts.simps) (simp add: CONFIG_VSK_API_RETRIES_def split: prod.splits)

text \<open>
  C2. With both credentials set, when rounds 0 and 1 of the exchange fail: if round 2
  succeeds, \<open>getVskToken\<close> makes exactly three requests, sleeps 1000 ms after the first
  failure and 2000 ms after the second, and returns the \<^verbatim>\<open>access_token\<close> of the third
  response; if round 2 fails too, the same three requests and two sleeps are made and
  the error of round 2 itself is the rejection.
\<close>

theorem getVskToken_retries:
  assumes "\<not> missing (env w) ''VSK_CLIENT_ID''" and "\<not> missing (env w) ''VSK_CLIENT_SECRET''"
    and "attempt w 0 = Inl e0" and "attempt w 1 = Inl e1"
  shows "(\<forall>token. attempt w 2 = Inr token \<longrightarrow>
            getVskToken w =
              ([TokenPost 0, Sleep 1000, TokenPost 1, Sleep 2000, TokenPost 2], Inr token))
       \<and> (\<forall>e2. attempt w 2 = Inl e2 \<longrightarrow>
            getVskToken w =
              ([TokenPost 0, Sleep 1000, TokenPost 1, Sleep 2000, TokenPost 2], Inl e2))"
  using assms(1,2)
  by (simp add: getVskToken_def attempts_first [OF assms(3)] attempts_second [OF assms(4)]
      attempts_last)

theorem getVskToken_retries_witness:
  "attempt flaky_world 0 = Inl (External (ascii ''timeout''))
   \<and> attempt flaky_world 1 = Inl (External (ascii ''timeout''))
   \<and> attempt flaky_world 2 = Inr (Str (ascii ''tok''))
   \<and> getVskToken flaky_world =
       ([TokenPost 0, Sleep 1000, TokenPost 1, Sleep 2000, TokenPost 2], Inr (Str (ascii ''tok'')))"
  using getVskToken_retries
    [of flaky_world "External (ascii ''timeout'')" "External (ascii ''timeout'')"]
  by (simp add: flaky_world_def stub_world_def stub_env_def missing_def attempt_def get_def
      ascii_def)

text \<open>
  C8, as the code has it. \<open>checkEnv\<close> throws at the first name that is unset or empty:
  when the client id is missing, \<open>getVskToken\<close> rejects with \<^verbatim>\<open>Missing env: VSK_CLIENT_ID\<close>,
  whatever the secret is; when only the secret is missing, with
  \<^verbatim>\<open>Missing env: VSK_CLIENT_SECRET\<close>. In both cases no call has been made.
\<close>

theorem getVskToken_missing_env:
  "(missing (env w) ''VSK_CLIENT_ID'' \<longrightarrow>
      getVskToken w = ([], Inl (Error (ascii ''Missing env: VSK_CLIENT_ID''))))
   \<and> (\<not> missing (env w) ''VSK_CLIENT_ID'' \<and> missing (env w) ''VSK_CLIENT_SECRET'' \<longrightarrow>
      getVskToken w = ([], Inl (Error (ascii ''Missing env: VSK_CLIENT_SECRET''))))"
  by (simp add: getVskToken_def)

theorem getVskToken_missing_env_witness:
  "missing (env bare_world) ''VSK_CLIENT_ID''
   \<and> getVskToken bare_world = ([], Inl (Error (ascii ''Missing env: VSK_CLIENT_ID'')))"
  using getVskToken_missing_env [of bare_world]
  by (simp add: bare_world_def missing_def)

text \<open>
  C8, as the claim has it, fails where both credentials are absent: the error names the
  client id only, and the name of the secret occurs nowhere in its message.
\<close>

theorem getVskToken_names_first_only:
  "missing (env bare_world) ''VSK_CLIENT_ID''
   \<and> missing (env bare_world) ''VSK_CLIENT_SECRET''
   \<and> getVskToken bare_world = ([], Inl (Error (ascii ''Missing env: VSK_CLIENT_ID'')))
   \<and> \<not> sublist (ascii ''VSK_CLIENT_SECRET'') (message (Error (ascii ''Missing env: VSK_CLIENT_ID'')))"
  by (simp add: bare_world_def missing_def getVskToken_def ascii_def sublist_code)

section \<open>The sum insured\<close>

lemma string_to_number_abc: "string_to_number (ascii ''abc'') = NaN"
  by (simp add: string_to_number_def trim_def is_ws_def ascii_def unsigned_decimal_def
      is_digit_def digit_of_def)

text \<open>
  C6. For a cover \<open>c\<close> whose \<^verbatim>\<open>sumInsured\<close> is \<open>v\<close>: each of the four tiers is kept as it
  is; \<^verbatim>\<open>0\<close>, \<^verbatim>\<open>null\<close> and \<^verbatim>\<open>"abc"\<close> become 50000; so does every value whose
  \<^verbatim>\<open>Number(v)\<close> is falsy; and every other value becomes \<^verbatim>\<open>Number(v)\<close>.
\<close>

theorem sumInsured_coercion:
  "(\<forall>c v. get c ''sumInsured'' = Inr v \<longrightarrow>
      v \<in> {Num (Fin 50000), Num (Fin 100000), Num (Fin 250000), Num (Fin 500000)} \<longrightarrow>
      cover c = Inr (Obj [(ascii ''sumInsured'', v)]))
   \<and> (\<forall>c v. get c ''sumInsured'' = Inr v \<longrightarrow>
      v \<in> {Num (Fin 0), Null, Str (ascii ''abc'')} \<longrightarrow>
      cover c = Inr (Obj [(ascii ''sumInsured'', Num (Fin 50000))]))
   \<and> (\<forall>c v n. get c ''sumInsured'' = Inr v \<longrightarrow> to_number v = Inr n \<longrightarrow> \<not> truthy (Num n) \<longrightarrow>
      cover c = Inr (Obj [(ascii ''sumInsured'', Num (Fin 50000))]))
   \<and> (\<forall>c v n. get c ''sumInsured'' = Inr v \<longrightarrow> to_number v = Inr n \<longrightarrow> truthy (Num n) \<longrightarrow>
      cover c = Inr (Obj [(ascii ''sumInsured'', Num n)]))"
  by (auto simp: cover_def sumInsured_coerce_def or_else_def string_to_number_abc)

theorem sumInsured_coercion_witness:
  "cover (Obj [(ascii ''sumInsured'', Num (Fin 250000))])
     = Inr (Obj [(ascii ''sumInsured'', Num (Fin 250000))])
   \<and> cover (Obj [(ascii ''sumInsured'', Str (ascii ''abc''))])
     = Inr (Obj [(ascii ''sumInsured'', Num (Fin 50000))])
   \<and> cover (Obj []) = Inr (Obj [(ascii ''sumInsured'', Num (Fin 50000))])
   \<and> cover (Obj [(ascii ''sumInsured'', Bool True)])
     = Inr (Obj [(ascii ''sumInsured'', Num (Fin 1))])"
proof -
  note T = sumInsured_coercion
  have g: "get (Obj [(ascii ''sumInsured'', v)]) ''sumInsured'' = Inr v" for v
    by (simp add: get_def)
  have u: "get (Obj []) ''sumInsured'' = Inr Undefined"
    by (simp add: get_def)
  have a: "cover (Obj [(ascii ''sumInsured'', Num (Fin 250000))])
      = Inr (Obj [(ascii ''sumInsured'', Num (Fin 250000))])"
    using T [THEN conjunct1, rule_format, OF g, of "Num (Fin 250000)"] by simp
  have b: "cover (Obj [(ascii ''sumInsured'', Str (ascii ''abc''))])
      = Inr (Obj [(ascii ''sumInsured'', Num (Fin 50000))])"
    using T [THEN conjunct2, THEN conjunct1, rule_format, OF g, of "Str (ascii ''abc'')"]
    by simp
  have c: "cover (Obj []) = Inr (Obj [(ascii ''sumInsured'', Num (Fin 50000))])"
    using T [THEN conjunct2, THEN conjunct2, THEN conjunct1, rule_format, OF u, of NaN]
    by simp
  have d: "cover (Obj [(ascii ''sumInsured'', Bool True)])
      = Inr (Obj [(ascii ''sumInsured'', Num (Fin 1))])"
    using T [THEN conjunct2, THEN conjunct2, THEN conjunct2, rule_format, OF g,
        of "Bool True" "Fin 1"]
    by simp
  from a b c d show ?thesis by simp
qed



section \<open>The issue date\<close>

lemma digit_char_not_T: "d < 10 \<Longrightarrow> digit_char d \<noteq> CHR ''T''"
proof -
  assume "d < 10"
  then have "d \<in> {0, 1, 2, 3, 4, 5, 6, 7, 8, 9}" by auto
  then show ?thesis by (auto simp: digit_char_def)
qed

lemma pad2_no_T: "CHR ''T'' \<notin> set (pad2 k)"
  using digit_char_not_T [of "k mod 10"] digit_char_not_T [of "k div 10 mod 10"]
  by (auto simp: pad2_def)

lemma pad4_no_T: "CHR ''T'' \<notin> set (pad4 k)"
  using digit_char_not_T [of "k div 100 mod 10"] digit_char_not_T [of "k div 1000 mod 10"]
    pad2_no_T [of k]
  by (auto simp: pad4_def pad3_def)

lemma pad6_no_T: "CHR ''T'' \<notin> set (pad6 k)"
  using digit_char_not_T [of "k div 100000 mod 10"] digit_char_not_T [of "k div 10000 mod 10"]
    pad4_no_T [of k]
  by (auto simp: pad6_def)

lemma iso_date_no_T: "CHR ''T'' \<notin> set (iso_date days)"
  by (auto simp: iso_date_def Let_def pad2_no_T pad4_no_T pad6_no_T split: prod.splits)

lemma split_T:
  "CHR ''T'' \<notin> set xs \<Longrightarrow> takeWhile (\<lambda>ch. ch \<noteq> CHR ''T'') (xs @ CHR ''T'' # ys) = xs"
  by (induction xs) auto

lemma div_second_day: "(x :: int) div 1000 * 1000 div 86400000 = x div 86400000"
proof -
  have "x div 1000 * 1000 div (1000 * 86400) = (x div 1000 * 1000 div 1000) div 86400"
    by (rule zdiv_zmult2_eq) simp
  also have "\<dots> = x div 1000 div 86400" by simp
  also have "\<dots> = x div (1000 * 86400)" by (rule zdiv_zmult2_eq [symmetric]) simp
  finally show ?thesis by simp
qed

text \<open>
  In a process whose own time zone is UTC, the issue date is the Moscow calendar date
  of the instant, whatever the time of day, with the fixed end-of-day time and offset.
\<close>

lemma issueDate_utc_host:
  assumes "host_utc_offset c = (\<lambda>t. 0)"
    and "issueDate c = Inr d"
  shows "d = ascii (iso_date ((now c + moscow_utc_offset c (now c)) div 86400000)
                    @ ''T23:59:59+03:00'')"
  using assms
  by (auto simp: issueDate_def toISOString_def Let_def split_T iso_date_no_T div_second_day
      split: if_splits)

text \<open>
  In general the date is that of the instant \<open>wall - host_utc_offset c wall\<close>, where
  \<open>wall\<close> is the Moscow wall clock: the offset of the process's zone is taken off again
  before the date is read.
\<close>

lemma issueDate_host_zone:
  assumes "issueDate c = Inr d"
  shows "d = ascii (iso_date (((now c + moscow_utc_offset c (now c)) div 1000 * 1000
                               - host_utc_offset c ((now c + moscow_utc_offset c (now c))
                                                    div 1000 * 1000)) div 86400000)
                    @ ''T23:59:59+03:00'')"
  using assms
  by (auto simp: issueDate_def toISOString_def Let_def split_T iso_date_no_T split: if_splits)

lemma issueDate_stub_clock: "issueDate stub_clock = Inr (ascii ''2026-11-03T23:59:59+03:00'')"
  by code_simp

lemma issueDate_moscow_host_clock:
  "issueDate moscow_host_clock = Inr (ascii ''2026-11-02T23:59:59+03:00'')"
  by code_simp

lemma moscow_date_of_stub_instant:
  "iso_date ((now moscow_host_clock
              + moscow_utc_offset moscow_host_clock (now moscow_host_clock)) div 86400000)
     = ''2026-11-03''"
  by code_simp

lemma buildAccidentRequest_scenario:
  "issueDate c = Inr issue \<Longrightarrow>
   buildAccidentRequest c (scenario_input action) = Inr (scenario_request issue)"
  by (simp add: buildAccidentRequest_def scenario_input_def scenario_person_def
      scenario_request_def array_map_def cover_def insured_def sumInsured_coerce_def
      or_else_def individual_def own_props_def)

text \<open>
  C3 at a process in the Moscow zone, on 2026-11-02 at 22:30:00 UTC, which is
  01:30 on 3 November in Moscow: the payload built from the scenario input has the
  issue date \<^verbatim>\<open>2026-11-02T23:59:59+03:00\<close>, while the Moscow calendar date of the instant is
  \<^verbatim>\<open>2026-11-03\<close>.
\<close>

theorem issueDate_wrong_day_on_moscow_host:
  "bind (buildAccidentRequest moscow_host_clock (scenario_input ''calc''))
        (\<lambda>out. get out ''issueDate'')
     = Inr (Str (ascii ''2026-11-02T23:59:59+03:00''))
   \<and> iso_date ((now moscow_host_clock
                 + moscow_utc_offset moscow_host_clock (now moscow_host_clock)) div 86400000)
     = ''2026-11-03''"
  by (simp add: buildAccidentRequest_scenario [OF issueDate_moscow_host_clock]
      moscow_date_of_stub_instant scenario_request_def)

section \<open>The request normaliser is a function of its input and the issue date\<close>

lemma map_e_Inr:
  "map_e f xs = Inr ys \<Longrightarrow> length ys = length xs \<and> (\<forall>i<length xs. f (xs ! i) = Inr (ys ! i))"
proof (induction xs arbitrary: ys)
  case Nil
  then show ?case by simp
next
  case (Cons x xs)
  from Cons.prems obtain y ys' where y: "f x = Inr y" and ys': "map_e f xs = Inr ys'" and e: "ys = y # ys'"
    by (auto simp: bind_def split: sum.splits)
  from Cons.IH [OF ys'] y e show ?case
    by (auto simp: nth_Cons split: nat.splits)
qed

lemma array_map_Inr:
  "array_map path v f = Inr r \<Longrightarrow> \<exists>xs ys. v = Arr xs \<and> r = Arr ys \<and> map_e f xs = Inr ys"
  by (auto simp: array_map_def bind_def split: jsval.splits sum.splits)

lemma insured_Inr:
  "insured i = Inr r \<Longrightarrow> \<exists>person. get i ''person'' = Inr person \<and> get r ''person'' = Inr (individual person)"
  by (auto simp: insured_def bind_def split: sum.splits)

lemma individual_props:
  "\<exists>kvs. individual person = Obj kvs
     \<and> map_of kvs = (map_of (own_props person))(ascii ''type'' \<mapsto> Str (ascii ''individual''))"
  by (simp add: individual_def update_conv')

lemma buildAccidentRequest_Inr:
  assumes "buildAccidentRequest c input = Inr out"
  obtains issue product startDate endDate policyHolder person address phone email
    insuredObject covers covers' insureds insureds'
  where "issueDate c = Inr issue"
    and "get input ''product'' = Inr product"
    and "get input ''startDate'' = Inr startDate"
    and "get input ''endDate'' = Inr endDate"
    and "get input ''policyHolder'' = Inr policyHolder"
    and "get policyHolder ''person'' = Inr person"
    and "get policyHolder ''address'' = Inr address"
    and "get policyHolder ''phone'' = Inr phone"
    and "get policyHolder ''email'' = Inr email"
    and "get input ''insuredObject'' = Inr insuredObject"
    and "get insuredObject ''covers'' = Inr covers"
    and "array_map ''input.insuredObject.covers'' covers cover = Inr covers'"
    and "get insuredObject ''insureds'' = Inr insureds"
    and "array_map ''input.insuredObject.insureds'' insureds insured = Inr insureds'"
    and "out = Obj
       [(ascii ''product'', or_else product (Obj [(ascii ''code'', Str (ascii ''ACCIDENT''))])),
        (ascii ''startDate'', startDate),
        (ascii ''endDate'', endDate),
        (ascii ''issueDate'', Str issue),
        (ascii ''policyHolder'', Obj
          [(ascii ''person'', individual person),
           (ascii ''address'', address),
           (ascii ''phone'', phone),
           (ascii ''email'', email)]),
        (ascii ''insuredObject'', Obj
          [(ascii ''covers'', covers'),
           (ascii ''insureds'', insureds')])]"
  using assms unfolding buildAccidentRequest_def
  by (auto simp: bind_def split: sum.splits)

lemma buildAccidentRequest_Inl:
  assumes "issueDate c = Inr d" and "issueDate c' = Inr d'"
    and "buildAccidentRequest c input = Inl e"
  shows "buildAccidentRequest c' input = Inl e"
  using assms unfolding buildAccidentRequest_def
  by (auto simp: bind_def split: sum.splits)

text \<open>
  C7. Take two clocks at which the issue date can be computed. If \<open>buildAccidentRequest\<close>
  throws on an input under one, it throws the same error under the other. If it
  returns a payload, then under the other clock it returns the same payload with only
  \<^verbatim>\<open>issueDate\<close> replaced; \<^verbatim>\<open>startDate\<close> and \<^verbatim>\<open>endDate\<close> of the payload are those of the
  input; the person of the policy holder, and the person of every insured, in order, is
  \<open>individual\<close> of the input person. \<open>individual person\<close> is an object whose properties
  are the own properties of \<open>person\<close>, except that \<^verbatim>\<open>type\<close> is \<^verbatim>\<open>'individual'\<close>, whatever the
  input had there.
\<close>

theorem buildAccidentRequest_pure:
  assumes "issueDate c = Inr d" and "issueDate c' = Inr d'"
  shows "(\<forall>e. buildAccidentRequest c input = Inl e \<longrightarrow> buildAccidentRequest c' input = Inl e)
   \<and> (\<forall>out. buildAccidentRequest c input = Inr out \<longrightarrow>
        buildAccidentRequest c' input = Inr (with_issueDate d' out)
      \<and> get out ''issueDate'' = Inr (Str d)
      \<and> get out ''startDate'' = get input ''startDate''
      \<and> get out ''endDate'' = get input ''endDate''
      \<and> (\<exists>policyHolder person.
            get input ''policyHolder'' = Inr policyHolder
          \<and> get policyHolder ''person'' = Inr person
          \<and> bind (get out ''policyHolder'') (\<lambda>p. get p ''person'') = Inr (individual person))
      \<and> (\<exists>insuredObject xs ys.
            get input ''insuredObject'' = Inr insuredObject
          \<and> get insuredObject ''insureds'' = Inr (Arr xs)
          \<and> bind (get out ''insuredObject'') (\<lambda>io. get io ''insureds'') = Inr (Arr ys)
          \<and> length ys = length xs
          \<and> (\<forall>i<length xs. \<exists>person.
                get (xs ! i) ''person'' = Inr person
              \<and> get (ys ! i) ''person'' = Inr (individual person))))
   \<and> (\<forall>person. \<exists>kvs. individual person = Obj kvs
        \<and> map_of kvs = (map_of (own_props person))(ascii ''type'' \<mapsto> Str (ascii ''individual'')))"
proof (intro conjI allI impI)
  fix e
  assume "buildAccidentRequest c input = Inl e"
  with assms show "buildAccidentRequest c' input = Inl e"
    by (rule buildAccidentRequest_Inl)
next
  fix person
  show "\<exists>kvs. individual person = Obj kvs
     \<and> map_of kvs = (map_of (own_props person))(ascii ''type'' \<mapsto> Str (ascii ''individual''))"
    by (rule individual_props)
next
  fix out
  assume out: "buildAccidentRequest c input = Inr out"
  from out show "buildAccidentRequest c' input = Inr (with_issueDate d' out)"
    using assms unfolding buildAccidentRequest_def
    by (auto simp: bind_def with_issueDate_def split: sum.splits)
next
  fix out
  assume out: "buildAccidentRequest c input = Inr out"
  then show "get out ''issueDate'' = Inr (Str d)"
    using assms(1) by (auto elim!: buildAccidentRequest_Inr)
next
  fix out
  assume out: "buildAccidentRequest c input = Inr out"
  then show "get out ''startDate'' = get input ''startDate''"
    by (auto elim!: buildAccidentRequest_Inr)
next
  fix out
  assume out: "buildAccidentRequest c input = Inr out"
  then show "get out ''endDate'' = get input ''endDate''"
    by (auto elim!: buildAccidentRequest_Inr)
next
  fix out
  assume out: "buildAccidentRequest c input = Inr out"
  then show "\<exists>policyHolder person.
            get input ''policyHolder'' = Inr policyHolder
          \<and> get policyHolder ''person'' = Inr person
          \<and> bind (get out ''policyHolder'') (\<lambda>p. get p ''person'') = Inr (individual person)"
    by (auto elim!: buildAccidentRequest_Inr)
next
  fix out
  assume out: "buildAccidentRequest c input = Inr out"
  then obtain insuredObject insureds insureds' where
    io: "get input ''insuredObject'' = Inr insuredObject"
    and ins: "get insuredObject ''insureds'' = Inr insureds"
    and m: "array_map ''input.insuredObject.insureds'' insureds insured = Inr insureds'"
    and o: "bind (get out ''insuredObject'') (\<lambda>io. get io ''insureds'') = Inr insureds'"
    by (auto elim!: buildAccidentRequest_Inr)
  from array_map_Inr [OF m] obtain xs ys where
    xs: "insureds = Arr xs" and ys: "insureds' = Arr ys" and e: "map_e insured xs = Inr ys"
    by blast
  from map_e_Inr [OF e] have len: "length ys = length xs"
    and each: "\<forall>i<length xs. insured (xs ! i) = Inr (ys ! i)"
    by simp_all
  have "\<forall>i<length xs. \<exists>person.
          get (xs ! i) ''person'' = Inr person \<and> get (ys ! i) ''person'' = Inr (individual person)"
    using each insured_Inr by blast
  with io ins o xs ys len
  show "\<exists>insuredObject xs ys.
            get input ''insuredObject'' = Inr insuredObject
          \<and> get insuredObject ''insureds'' = Inr (Arr xs)
          \<and> bind (get out ''insuredObject'') (\<lambda>io. get io ''insureds'') = Inr (Arr ys)
          \<and> length ys = length xs
          \<and> (\<forall>i<length xs. \<exists>person.
                get (xs ! i) ''person'' = Inr person
              \<and> get (ys ! i) ''person'' = Inr (individual person))"
    by blast
qed


theorem buildAccidentRequest_pure_witness:
  "issueDate stub_clock = Inr (ascii ''2026-11-03T23:59:59+03:00'')
   \<and> issueDate moscow_host_clock = Inr (ascii ''2026-11-02T23:59:59+03:00'')
   \<and> buildAccidentRequest stub_clock (scenario_input ''calc'')
       = Inr (scenario_request (ascii ''2026-11-03T23:59:59+03:00''))
   \<and> buildAccidentRequest moscow_host_clock (scenario_input ''calc'')
       = Inr (with_issueDate (ascii ''2026-11-02T23:59:59+03:00'')
               (scenario_request (ascii ''2026-11-03T23:59:59+03:00'')))
   \<and> get (scenario_request (ascii ''2026-11-03T23:59:59+03:00'')) ''startDate''
       = get (scenario_input ''calc'') ''startDate''"
  using buildAccidentRequest_pure [OF issueDate_stub_clock issueDate_moscow_host_clock,
      of "scenario_input ''calc''"]
  by (simp add: issueDate_stub_clock issueDate_moscow_host_clock
      buildAccidentRequest_scenario [OF issueDate_stub_clock])



lemma to_number_total: "\<not> to_string_throws v \<Longrightarrow> \<exists>n. to_number v = Inr n"
  by (induction v rule: to_number.induct) auto

lemma map_e_total:
  "(\<And>x. x \<in> set xs \<Longrightarrow> \<exists>y. f x = Inr y) \<Longrightarrow> \<exists>ys. map_e f xs = Inr ys"
proof (induction xs)
  case Nil
  then show ?case by simp
next
  case (Cons x xs)
  from Cons.prems [of x] obtain y where y: "f x = Inr y" by auto
  from Cons.IH Cons.prems obtain ys where "map_e f xs = Inr ys" by auto
  with y show ?case by simp
qed

lemma get_total: "x \<noteq> Undefined \<Longrightarrow> x \<noteq> Null \<Longrightarrow> \<exists>v. get x k = Inr v"
  by (cases x) (simp_all add: get_def)

lemma cover_total:
  assumes "c \<noteq> Undefined" and "c \<noteq> Null"
    and "\<And>v. get c ''sumInsured'' = Inr v \<Longrightarrow> \<not> to_string_throws v"
  shows "\<exists>r. cover c = Inr r"
proof -
  from get_total [OF assms(1,2)] obtain v where v: "get c ''sumInsured'' = Inr v" by blast
  from to_number_total [OF assms(3) [OF v]] obtain n where "to_number v = Inr n" by blast
  with v show ?thesis by (simp add: cover_def sumInsured_coerce_def)
qed

lemma insured_total:
  assumes "i \<noteq> Undefined" and "i \<noteq> Null"
  shows "\<exists>r. insured i = Inr r"
proof -
  from get_total [OF assms] obtain p where p: "get i ''person'' = Inr p" by blast
  from get_total [OF assms] obtain a where "get i ''additionalFactors'' = Inr a" by blast
  with p show ?thesis by (simp add: insured_def)
qed

text \<open>
  \<open>buildAccidentRequest\<close> returns a payload whenever the issue date can be computed, the
  policy holder and the insured object are present, \<^verbatim>\<open>covers\<close> and \<^verbatim>\<open>insureds\<close> are arrays
  without \<^verbatim>\<open>null\<close> elements, and no \<^verbatim>\<open>sumInsured\<close> is an object that cannot be converted.
\<close>

lemma buildAccidentRequest_returns:
  assumes "issueDate c = Inr d"
    and "get input ''policyHolder'' = Inr policyHolder"
    and "policyHolder \<noteq> Undefined" and "policyHolder \<noteq> Null"
    and "get input ''insuredObject'' = Inr insuredObject"
    and "get insuredObject ''covers'' = Inr (Arr cs)"
    and "\<And>x. x \<in> set cs \<Longrightarrow> x \<noteq> Undefined \<and> x \<noteq> Null
            \<and> (\<forall>v. get x ''sumInsured'' = Inr v \<longrightarrow> \<not> to_string_throws v)"
    and "get insuredObject ''insureds'' = Inr (Arr is)"
    and "\<And>x. x \<in> set is \<Longrightarrow> x \<noteq> Undefined \<and> x \<noteq> Null"
  shows "\<exists>out. buildAccidentRequest c input = Inr out"
proof -
  have i: "input \<noteq> Undefined" "input \<noteq> Null"
    using assms(2) by (auto simp: get_def)
  from get_total [OF i] obtain product where 1: "get input ''product'' = Inr product" by blast
  from get_total [OF i] obtain startDate where 2: "get input ''startDate'' = Inr startDate" by blast
  from get_total [OF i] obtain endDate where 3: "get input ''endDate'' = Inr endDate" by blast
  from get_total [OF assms(3,4)] obtain person where 4: "get policyHolder ''person'' = Inr person"
    by blast
  from get_total [OF assms(3,4)] obtain address where 5: "get policyHolder ''address'' = Inr address"
    by blast
  from get_total [OF assms(3,4)] obtain phone where 6: "get policyHolder ''phone'' = Inr phone"
    by blast
  from get_total [OF assms(3,4)] obtain email where 7: "get policyHolder ''email'' = Inr email"
    by blast
  have "\<exists>ys. map_e cover cs = Inr ys"
    using assms(7) by (intro map_e_total cover_total) auto
  then obtain cs' where 8: "map_e cover cs = Inr cs'" by blast
  have "\<exists>ys. map_e insured is = Inr ys"
    using assms(9) by (intro map_e_total insured_total) auto
  then obtain is' where 9: "map_e insured is = Inr is'" by blast
  show ?thesis
    by (simp add: buildAccidentRequest_def assms(1,2,5,6,8) 1 2 3 4 5 6 7 8 9 array_map_def)
qed

text \<open>Every cover of the payload is \<open>cover\<close> of the input cover at the same place.\<close>

lemma buildAccidentRequest_covers:
  assumes "buildAccidentRequest c input = Inr out"
  shows "\<exists>insuredObject xs ys.
            get input ''insuredObject'' = Inr insuredObject
          \<and> get insuredObject ''covers'' = Inr (Arr xs)
          \<and> bind (get out ''insuredObject'') (\<lambda>io. get io ''covers'') = Inr (Arr ys)
          \<and> length ys = length xs
          \<and> (\<forall>i<length xs. cover (xs ! i) = Inr (ys ! i))"
proof -
  from assms obtain insuredObject covers covers' where
    io: "get input ''insuredObject'' = Inr insuredObject"
    and cs: "get insuredObject ''covers'' = Inr covers"
    and m: "array_map ''input.insuredObject.covers'' covers cover = Inr covers'"
    and o: "bind (get out ''insuredObject'') (\<lambda>io. get io ''covers'') = Inr covers'"
    by (auto elim!: buildAccidentRequest_Inr)
  from array_map_Inr [OF m] obtain xs ys where
    "covers = Arr xs" "covers' = Arr ys" "map_e cover xs = Inr ys"
    by blast
  with io cs o map_e_Inr [of cover xs ys] show ?thesis
    by blast
qed

section \<open>The quote handler\<close>

lemma io_bind_local_cases:
  "io_bind (io_local r) f = (case r of Inl e \<Rightarrow> ([], Inl e) | Inr x \<Rightarrow> f x)"
  by (simp split: sum.splits)

lemma io_bind_call_cases:
  "io_bind (io_call ev r) f = (case r of Inl e \<Rightarrow> ([ev], Inl e) | Inr x \<Rightarrow> (ev # fst (f x), snd (f x)))"
  by (simp split: sum.splits)

lemma io_local_sel [simp]: "fst (io_local r) = []" "snd (io_local r) = r"
  by (simp_all add: io_local_def)

lemma handleCalc_write:
  assumes "ExecuteQuery q \<in> set (fst (handleCalc w token params))"
  shows "\<exists>req data premium.
           buildAccidentRequest (clock w) params = Inr req
         \<and> quote_post w token req = Inr data
         \<and> get data ''premium'' = Inr premium
         \<and> q = calc_query (later w) premium req data
         \<and> fst (handleCalc w token params) = [QuotePost token req, ExecuteQuery q]"
  using assms unfolding handleCalc_def
  by (auto simp: io_bind_local_cases io_bind_call_cases Let_def split: sum.splits)

lemma handleCalc_response:
  assumes "snd (handleCalc w token params) = Inr r"
  shows "\<exists>req data premium draftId insuredObject covers.
           buildAccidentRequest (clock w) params = Inr req
         \<and> quote_post w token req = Inr data
         \<and> get data ''premium'' = Inr premium
         \<and> get data ''draftId'' = Inr draftId
         \<and> get data ''insuredObject'' = Inr insuredObject
         \<and> get insuredObject ''covers'' = Inr covers
         \<and> execute_query w (calc_query (later w) premium req data) = Inr ()
         \<and> fst (handleCalc w token params)
             = [QuotePost token req, ExecuteQuery (calc_query (later w) premium req data)]
         \<and> r = json_response 200 (Obj
             [(ascii ''premium'', premium), (ascii ''requestId'', draftId), (ascii ''covers'', covers)])"
  using assms unfolding handleCalc_def
  by (auto simp: io_bind_local_cases io_bind_call_cases Let_def split: sum.splits)

lemma is_json_defined: "list_all is_json xs \<Longrightarrow> x \<in> set xs \<Longrightarrow> x \<noteq> Undefined"
  by (auto simp: list_all_iff)

lemma json_tree_id: "is_json v \<Longrightarrow> json_tree v = v"
proof (induction v rule: json_tree.induct)
  case (4 xs)
  have "map (\<lambda>x. if x = Undefined then Null else json_tree x) xs = xs"
  proof (rule map_idI)
    fix x assume x: "x \<in> set xs"
    with 4(2) have "x \<noteq> Undefined" "is_json x"
      by (auto simp: list_all_iff)
    with 4(1) [OF x] show "(if x = Undefined then Null else json_tree x) = x"
      by simp
  qed
  then show ?case by simp
next
  case (5 kvs)
  have d: "snd kv \<noteq> Undefined \<and> is_json (snd kv)" if "kv \<in> set kvs" for kv
    using that 5(2) by (auto simp: list_all_iff)
  have f: "filter (\<lambda>(k, v). v \<noteq> Undefined) kvs = kvs"
  proof (rule filter_True, rule ballI)
    fix kv assume "kv \<in> set kvs"
    from d [OF this] show "case kv of (k, v) \<Rightarrow> v \<noteq> Undefined"
      by (cases kv) simp
  qed
  have "map (\<lambda>(k, v). (k, json_tree v)) kvs = kvs"
  proof (rule map_idI)
    fix kv assume kv: "kv \<in> set kvs"
    obtain k v where e: "kv = (k, v)" by (cases kv)
    from kv e f have "(k, v) \<in> set (filter (\<lambda>(k, v). v \<noteq> Undefined) kvs)" by simp
    from 5(1) [OF this refl] d [OF kv] e show "(case kv of (k, v) \<Rightarrow> (k, json_tree v)) = kv"
      by simp
  qed
  with f show ?case by simp
qed simp_all

lemma get_json_response_premium:
  "get (json_tree (Obj [(ascii ''premium'', p), (ascii ''requestId'', d), (ascii ''covers'', c)])) ''premium''
     = Inr (json_tree p)"
  by (cases "p = Undefined") (auto simp: get_def)

lemma calc_query_price:
  "map_of (db_params (calc_query ts premium req data)) ''$price''
     = Some (Double (if truthy premium then premium else Num (Fin 0)))"
  "db_table (calc_query ts premium req data) = ''insurance_calculations''"
  by (simp_all add: calc_query_def or_else_def)

text \<open>
  C9. Whenever \<open>handleCalc\<close> writes a record, the partner's quote call had returned
  \<open>data\<close>, the record goes to \<^verbatim>\<open>insurance_calculations\<close>, and its \<^verbatim>\<open>$price\<close> is
  \<^verbatim>\<open>data.premium\<close> where that is truthy and \<^verbatim>\<open>0\<close> where it is falsy (absent, \<^verbatim>\<open>null\<close>, \<^verbatim>\<open>0\<close>
  among others). Whenever it returns a response, the record has been written, the status
  is 200, and the \<^verbatim>\<open>premium\<close> of the body is \<^verbatim>\<open>data.premium\<close> as JSON renders it: unchanged
  for every JSON value, and absent where it was absent.
\<close>

theorem calc_price_and_premium:
  "(\<forall>q. ExecuteQuery q \<in> set (fst (handleCalc w token params)) \<longrightarrow>
      (\<exists>req data premium.
          quote_post w token req = Inr data
        \<and> get data ''premium'' = Inr premium
        \<and> db_table q = ''insurance_calculations''
        \<and> map_of (db_params q) ''$price''
            = Some (Double (if truthy premium then premium else Num (Fin 0)))))
   \<and> (\<forall>r. snd (handleCalc w token params) = Inr r \<longrightarrow>
      (\<exists>req data premium b.
          quote_post w token req = Inr data
        \<and> get data ''premium'' = Inr premium
        \<and> ExecuteQuery (calc_query (later w) premium req data)
            \<in> set (fst (handleCalc w token params))
        \<and> statusCode r = 200
        \<and> body r = JsonBody b
        \<and> get b ''premium'' = Inr (json_tree premium)))
   \<and> (\<forall>v. is_json v \<longrightarrow> json_tree v = v)
   \<and> json_tree Undefined = Undefined"
proof (intro conjI allI impI)
  fix q
  assume "ExecuteQuery q \<in> set (fst (handleCalc w token params))"
  from handleCalc_write [OF this] show "\<exists>req data premium.
          quote_post w token req = Inr data
        \<and> get data ''premium'' = Inr premium
        \<and> db_table q = ''insurance_calculations''
        \<and> map_of (db_params q) ''$price''
            = Some (Double (if truthy premium then premium else Num (Fin 0)))"
    using calc_query_price by blast
next
  fix r
  assume "snd (handleCalc w token params) = Inr r"
  from handleCalc_response [OF this] obtain req data premium draftId covers where
    a: "quote_post w token req = Inr data" "get data ''premium'' = Inr premium"
    and t: "fst (handleCalc w token params)
             = [QuotePost token req, ExecuteQuery (calc_query (later w) premium req data)]"
    and r: "r = json_response 200 (Obj
             [(ascii ''premium'', premium), (ascii ''requestId'', draftId), (ascii ''covers'', covers)])"
    by blast
  define b where "b = json_tree (Obj
             [(ascii ''premium'', premium), (ascii ''requestId'', draftId), (ascii ''covers'', covers)])"
  from r have s: "statusCode r = 200" and b: "body r = JsonBody b"
    by (simp_all only: json_response_def b_def response.simps)
  have p: "get b ''premium'' = Inr (json_tree premium)"
    unfolding b_def by (rule get_json_response_premium)
  have m: "ExecuteQuery (calc_query (later w) premium req data)
            \<in> set (fst (handleCalc w token params))"
    by (simp add: t)
  from a m s b p
  show "\<exists>req data premium b.
          quote_post w token req = Inr data
        \<and> get data ''premium'' = Inr premium
        \<and> ExecuteQuery (calc_query (later w) premium req data)
            \<in> set (fst (handleCalc w token params))
        \<and> statusCode r = 200
        \<and> body r = JsonBody b
        \<and> get b ''premium'' = Inr (json_tree premium)"
    by blast
next
  fix v assume "is_json v"
  then show "json_tree v = v" by (rule json_tree_id)
qed simp


lemma stub_world_sel [simp]:
  "clock stub_world = stub_clock"
  "later stub_world = 1793658601000"
  "env stub_world = stub_env"
  "metadata_get stub_world = Inr (Obj [(ascii ''access_token'', Str (ascii ''iam''))])"
  "new_driver stub_world = Inr ()"
  "driver_ready stub_world = Inr True"
  "acquire_session stub_world = Inr ()"
  "quote_post stub_world token req = Inr scenario_quote"
  "execute_query stub_world q = Inr ()"
  by (simp_all add: stub_world_def)

lemma template_Str [simp]: "template (Str s) = Inr ()"
  by (simp add: template_def)

lemma handleCalc_scenario:
  assumes "clock w = stub_clock" and "quote_post w token (scenario_request (ascii ''2026-11-03T23:59:59+03:00'')) = Inr data"
    and "template token = Inr ()"
    and "get data ''premium'' = Inr premium"
  shows "fst (handleCalc w token (scenario_input ''calc''))
     = [QuotePost token (scenario_request (ascii ''2026-11-03T23:59:59+03:00'')),
        ExecuteQuery (calc_query (later w) premium (scenario_request (ascii ''2026-11-03T23:59:59+03:00'')) data)]"
  using assms
  by (simp add: handleCalc_def buildAccidentRequest_scenario [OF issueDate_stub_clock] Let_def io_bind_local_cases io_bind_call_cases split: sum.splits)

theorem calc_price_and_premium_witness:
  "ExecuteQuery (calc_query 1793658601000 (Num (Fin 0))
       (scenario_request (ascii ''2026-11-03T23:59:59+03:00'')) zero_quote)
     \<in> set (fst (handleCalc zero_quote_world (Str (ascii ''tok'')) (scenario_input ''calc'')))
   \<and> map_of (db_params (calc_query 1793658601000 (Num (Fin 0))
       (scenario_request (ascii ''2026-11-03T23:59:59+03:00'')) zero_quote)) ''$price''
     = Some (Double (Num (Fin 0)))
   \<and> (\<exists>b. map_sum id body (snd (handleCalc zero_quote_world (Str (ascii ''tok'')) (scenario_input ''calc'')))
           = Inr (JsonBody b) \<and> get b ''premium'' = Inr (Num (Fin 0)))"
proof -
  let ?R = "scenario_request (ascii ''2026-11-03T23:59:59+03:00'')"
  let ?Q = "calc_query 1793658601000 (Num (Fin 0)) ?R zero_quote"
  let ?run = "handleCalc zero_quote_world (Str (ascii ''tok'')) (scenario_input ''calc'')"
  note T = calc_price_and_premium [of zero_quote_world "Str (ascii ''tok'')" "scenario_input ''calc''"]
  have q: "quote_post zero_quote_world token req = Inr zero_quote" for token req
    by (simp add: zero_quote_world_def)
  have p: "get zero_quote ''premium'' = Inr (Num (Fin 0))"
    by (simp add: zero_quote_def)
  have "fst ?run = [QuotePost (Str (ascii ''tok'')) ?R, ExecuteQuery ?Q]"
    using handleCalc_scenario [of zero_quote_world "Str (ascii ''tok'')" zero_quote "Num (Fin 0)"]
    by (simp add: zero_quote_world_def zero_quote_def)
  then have m: "ExecuteQuery ?Q \<in> set (fst ?run)"
    by simp
  from T [THEN conjunct1, rule_format, OF m] q p
  have price: "map_of (db_params ?Q) ''$price'' = Some (Double (Num (Fin 0)))"
    by auto
  have "\<exists>r. snd ?run = Inr r"
    by (simp add: handleCalc_def buildAccidentRequest_scenario [OF issueDate_stub_clock] Let_def
        zero_quote_world_def zero_quote_def)
  then obtain r where r: "snd ?run = Inr r" ..
  from T [THEN conjunct2, THEN conjunct1, rule_format, OF r] q p
  obtain b where "body r = JsonBody b" and "get b ''premium'' = Inr (Num (Fin 0))"
    by auto
  with r have "\<exists>b. map_sum id body (snd ?run) = Inr (JsonBody b) \<and> get b ''premium'' = Inr (Num (Fin 0))"
    by simp
  with m price show ?thesis by simp
qed


section \<open>Records follow the partner's answers\<close>

lemma handlePay_write:
  assumes "ExecuteQuery q \<in> set (fst (handlePay w token params))"
  shows "\<exists>req policy policyNumber payment pay.
           buildAccidentRequest (clock w) params = Inr req
         \<and> policy_post w token req = Inr policy
         \<and> installment_put w token policyNumber payment = Inr pay
         \<and> fst (handlePay w token params)
             = [PolicyPost token req, InstallmentPut token policyNumber payment, ExecuteQuery q]"
  using assms unfolding handlePay_def
  by (auto simp: io_bind_local_cases io_bind_call_cases Let_def split: sum.splits)

text \<open>
  C4. If a run of \<open>handleCalc\<close> executes a database query, the quote call had succeeded
  and the run made exactly that call and then that query. If a run of \<open>handlePay\<close>
  executes one, the policy call and the installment call had both succeeded and the run
  made exactly those two calls and then the query. A run whose quote call, policy call
  or installment call fails executes no query.
\<close>

theorem record_only_after_partner_success:
  "(\<forall>q. ExecuteQuery q \<in> set (fst (handleCalc w token params)) \<longrightarrow>
      (\<exists>req data.
          buildAccidentRequest (clock w) params = Inr req
        \<and> quote_post w token req = Inr data
        \<and> fst (handleCalc w token params) = [QuotePost token req, ExecuteQuery q]))
   \<and> (\<forall>q. ExecuteQuery q \<in> set (fst (handlePay w token params)) \<longrightarrow>
      (\<exists>req policy policyNumber payment pay.
          buildAccidentRequest (clock w) params = Inr req
        \<and> policy_post w token req = Inr policy
        \<and> installment_put w token policyNumber payment = Inr pay
        \<and> fst (handlePay w token params)
            = [PolicyPost token req, InstallmentPut token policyNumber payment, ExecuteQuery q]))
   \<and> (\<forall>req e q. buildAccidentRequest (clock w) params = Inr req \<longrightarrow>
        quote_post w token req = Inl e \<longrightarrow>
        ExecuteQuery q \<notin> set (fst (handleCalc w token params)))
   \<and> (\<forall>req e q. buildAccidentRequest (clock w) params = Inr req \<longrightarrow>
        policy_post w token req = Inl e \<longrightarrow>
        ExecuteQuery q \<notin> set (fst (handlePay w token params)))
   \<and> (\<forall>policyNumber payment e q.
        InstallmentPut token policyNumber payment \<in> set (fst (handlePay w token params)) \<longrightarrow>
        installment_put w token policyNumber payment = Inl e \<longrightarrow>
        ExecuteQuery q \<notin> set (fst (handlePay w token params)))"
proof (intro conjI allI impI)
  fix q
  assume "ExecuteQuery q \<in> set (fst (handleCalc w token params))"
  from handleCalc_write [OF this]
  show "\<exists>req data.
          buildAccidentRequest (clock w) params = Inr req
        \<and> quote_post w token req = Inr data
        \<and> fst (handleCalc w token params) = [QuotePost token req, ExecuteQuery q]"
    by blast
next
  fix q
  assume "ExecuteQuery q \<in> set (fst (handlePay w token params))"
  then show "\<exists>req policy policyNumber payment pay.
          buildAccidentRequest (clock w) params = Inr req
        \<and> policy_post w token req = Inr policy
        \<and> installment_put w token policyNumber payment = Inr pay
        \<and> fst (handlePay w token params)
            = [PolicyPost token req, InstallmentPut token policyNumber payment, ExecuteQuery q]"
    by (rule handlePay_write)
next
  fix req e q
  assume b: "buildAccidentRequest (clock w) params = Inr req" and f: "quote_post w token req = Inl e"
  show "ExecuteQuery q \<notin> set (fst (handleCalc w token params))"
  proof
    assume "ExecuteQuery q \<in> set (fst (handleCalc w token params))"
    from handleCalc_write [OF this] b f show False by auto
  qed
next
  fix req e q
  assume b: "buildAccidentRequest (clock w) params = Inr req" and f: "policy_post w token req = Inl e"
  show "ExecuteQuery q \<notin> set (fst (handlePay w token params))"
  proof
    assume "ExecuteQuery q \<in> set (fst (handlePay w token params))"
    from handlePay_write [OF this] b f show False by auto
  qed
next
  fix policyNumber payment e q
  assume m: "InstallmentPut token policyNumber payment \<in> set (fst (handlePay w token params))"
    and f: "installment_put w token policyNumber payment = Inl e"
  show "ExecuteQuery q \<notin> set (fst (handlePay w token params))"
  proof
    assume "ExecuteQuery q \<in> set (fst (handlePay w token params))"
    from handlePay_write [OF this] m f show False by auto
  qed
qed

lemma handleCalc_quote_down:
  "handleCalc quote_down_world (Str (ascii ''tok'')) (scenario_input ''calc'')
     = ([QuotePost (Str (ascii ''tok'')) (scenario_request (ascii ''2026-11-03T23:59:59+03:00''))],
        Inl (External (ascii ''status 502'')))"
  by (simp add: handleCalc_def buildAccidentRequest_scenario [OF issueDate_stub_clock]
      quote_down_world_def)

lemma scenario_input_urls [simp]:
  "get (scenario_input action) ''successUrl'' = Inr Undefined"
  "get (scenario_input action) ''failUrl'' = Inr Undefined"
  "get (scenario_input action) ''id'' = Inr Undefined"
  by (simp_all add: scenario_input_def)

lemma handlePay_stub:
  "fst (handlePay stub_world (Str (ascii ''tok'')) (scenario_input ''pay''))
     = [PolicyPost (Str (ascii ''tok'')) (scenario_request (ascii ''2026-11-03T23:59:59+03:00'')),
        InstallmentPut (Str (ascii ''tok'')) (Str (ascii ''P1''))
          (Obj [(ascii ''amount'', Num (Fin (2469 / 2))),
                (ascii ''paymentType'', Str (ascii ''CARD'')),
                (ascii ''successUrl'', Undefined),
                (ascii ''failUrl'', Undefined)]),
        ExecuteQuery (pay_query 1793658601000 (Str (ascii ''P1'')) (Num (Fin (2469 / 2)))
          (Str (ascii ''https://pay'')) Undefined
          (scenario_request (ascii ''2026-11-03T23:59:59+03:00'')))]"
  by (simp add: handlePay_def buildAccidentRequest_scenario [OF issueDate_stub_clock] Let_def
      stub_world_def)

theorem record_only_after_partner_success_witness:
  "buildAccidentRequest (clock quote_down_world) (scenario_input ''calc'')
     = Inr (scenario_request (ascii ''2026-11-03T23:59:59+03:00''))
   \<and> quote_post quote_down_world (Str (ascii ''tok''))
       (scenario_request (ascii ''2026-11-03T23:59:59+03:00'')) = Inl (External (ascii ''status 502''))
   \<and> fst (handleCalc quote_down_world (Str (ascii ''tok'')) (scenario_input ''calc''))
     = [QuotePost (Str (ascii ''tok'')) (scenario_request (ascii ''2026-11-03T23:59:59+03:00''))]
   \<and> (\<forall>q. ExecuteQuery q
          \<notin> set (fst (handleCalc quote_down_world (Str (ascii ''tok'')) (scenario_input ''calc''))))
   \<and> (\<exists>q. ExecuteQuery q
          \<in> set (fst (handlePay stub_world (Str (ascii ''tok'')) (scenario_input ''pay'')))
        \<and> policy_post stub_world (Str (ascii ''tok''))
             (scenario_request (ascii ''2026-11-03T23:59:59+03:00''))
           = Inr (Obj [(ascii ''policyNumber'', Str (ascii ''P1'')),
                       (ascii ''premium'', Num (Fin (2469 / 2))),
                       (ascii ''draftId'', Str (ascii ''D1''))]))"
proof -
  let ?R = "scenario_request (ascii ''2026-11-03T23:59:59+03:00'')"
  note T = record_only_after_partner_success
  have b: "buildAccidentRequest (clock quote_down_world) (scenario_input ''calc'') = Inr ?R"
    by (simp add: buildAccidentRequest_scenario [OF issueDate_stub_clock] quote_down_world_def)
  have f: "quote_post quote_down_world (Str (ascii ''tok'')) ?R = Inl (External (ascii ''status 502''))"
    by (simp add: quote_down_world_def)
  from T [of quote_down_world "Str (ascii ''tok'')" "scenario_input ''calc''",
      THEN conjunct2, THEN conjunct2, THEN conjunct1, rule_format, OF b f]
  have n: "\<forall>q. ExecuteQuery q
          \<notin> set (fst (handleCalc quote_down_world (Str (ascii ''tok'')) (scenario_input ''calc'')))"
    by blast
  let ?Q = "pay_query 1793658601000 (Str (ascii ''P1'')) (Num (Fin (2469 / 2)))
          (Str (ascii ''https://pay'')) Undefined ?R"
  have m: "ExecuteQuery ?Q
      \<in> set (fst (handlePay stub_world (Str (ascii ''tok'')) (scenario_input ''pay'')))"
    by (simp add: handlePay_stub)
  from T [of stub_world "Str (ascii ''tok'')" "scenario_input ''pay''",
      THEN conjunct2, THEN conjunct1, rule_format, OF m]
  obtain req policy where "buildAccidentRequest (clock stub_world) (scenario_input ''pay'') = Inr req"
    and "policy_post stub_world (Str (ascii ''tok'')) req = Inr policy"
    by blast
  then have p: "policy_post stub_world (Str (ascii ''tok'')) ?R
           = Inr (Obj [(ascii ''policyNumber'', Str (ascii ''P1'')),
                       (ascii ''premium'', Num (Fin (2469 / 2))),
                       (ascii ''draftId'', Str (ascii ''D1''))])"
    by (simp add: stub_world_def)
  from b f n m p show ?thesis
    by (auto simp: handleCalc_quote_down)
qed

section \<open>The document handler\<close>




section \<open>The dispatcher\<close>

lemma getDriver_events: "ev \<in> set (fst (snd (getDriver w d))) \<Longrightarrow> \<not> business_call ev"
  by (auto simp: getDriver_def fetchIamToken_def split: if_splits sum.splits prod.splits)

lemma attempts_events: "ev \<in> set (fst (attempts w i)) \<Longrightarrow> \<not> business_call ev"
proof (induction w i rule: attempts.induct)
  case (1 w i)
  then show ?case
    by (subst (asm) (2) attempts.simps) (auto split: if_splits sum.splits prod.splits)
qed

lemma getVskToken_events: "ev \<in> set (fst (getVskToken w)) \<Longrightarrow> \<not> business_call ev"
  by (auto simp: getVskToken_def dest: attempts_events split: sum.splits)

lemma session_callback_unknown:
  assumes "get parsed ''action'' = Inr action"
    and "action \<notin> {Str (ascii ''calc''), Str (ascii ''pay''), Str (ascii ''sample''), Str (ascii ''pdf'')}"
  shows "session_callback w parsed
     = (fst (getVskToken w),
        case snd (getVskToken w) of
          Inl e \<Rightarrow> Inl e
        | Inr token \<Rightarrow> Inr (json_response 400 (Obj [(ascii ''error'', Str (ascii ''Unknown action''))])))"
  using assms
  by (cases "getVskToken w") (auto simp: session_callback_def split: sum.splits)

lemma handler_action_missing:
  assumes "get parsed ''action'' = Inr action" and "\<not> truthy action"
  shows "handler w d parsed
     = (d, [], Inr (json_response 400 (Obj [(ascii ''error'', Str (ascii ''action missing''))])))"
  using assms by (simp add: handler_def)

text \<open>
  C1, as the code has it. Take a request whose \<^verbatim>\<open>action\<close> is none of \<^verbatim>\<open>calc\<close>, \<^verbatim>\<open>pay\<close>,
  \<^verbatim>\<open>sample\<close>, \<^verbatim>\<open>pdf\<close>. Whatever the surroundings answer, the handler makes no request to
  the partner's sales API, no write to object storage and no database query. Where the
  action is truthy, the driver, the session and the partner token are obtained before
  the action is looked at, and when all three are obtained the response has status 400
  and the body \<^verbatim>\<open>{error: "Unknown action"}\<close>. Where the action is falsy (the empty string,
  \<^verbatim>\<open>0\<close>, \<^verbatim>\<open>null\<close>, \<^verbatim>\<open>false\<close>), the response is 400 with \<^verbatim>\<open>{error: "action missing"}\<close>, and no
  call at all is made.
\<close>

theorem unknown_action:
  assumes "get parsed ''action'' = Inr action"
    and "action \<notin> {Str (ascii ''calc''), Str (ascii ''pay''), Str (ascii ''sample''), Str (ascii ''pdf'')}"
  shows "(\<forall>ev \<in> set (fst (snd (handler w d parsed))). \<not> business_call ev)
     \<and> (truthy action \<longrightarrow>
          (\<forall>d' t0 t1 token.
             getDriver w d = (d', t0, Inr ()) \<longrightarrow> acquire_session w = Inr () \<longrightarrow>
             getVskToken w = (t1, Inr token) \<longrightarrow>
             handler w d parsed
               = (d', t0 @ SessionAcquire # t1 @ [SessionRelease],
                  Inr (json_response 400 (Obj [(ascii ''error'', Str (ascii ''Unknown action''))])))))
     \<and> (\<not> truthy action \<longrightarrow>
          handler w d parsed
            = (d, [], Inr (json_response 400 (Obj [(ascii ''error'', Str (ascii ''action missing''))]))))"
proof (intro conjI ballI allI impI)
  fix ev
  assume ev: "ev \<in> set (fst (snd (handler w d parsed)))"
  obtain d' t0 r0 where g: "getDriver w d = (d', t0, r0)"
    by (cases "getDriver w d") auto
  have t0: "\<And>x. x \<in> set t0 \<Longrightarrow> \<not> business_call x"
    using getDriver_events [of _ w d] g by simp
  have t1: "\<And>x. x \<in> set (fst (getVskToken w)) \<Longrightarrow> \<not> business_call x"
    by (rule getVskToken_events)
  show "\<not> business_call ev"
  proof (cases "truthy action")
    case True
    with ev assms(1) g t0 t1 show ?thesis
      by (auto simp: handler_def withSession_def session_callback_unknown [OF assms]
          split: sum.splits prod.splits)
  next
    case False
    with ev handler_action_missing [OF assms(1), of w d] show ?thesis
      by simp
  qed
next
  fix d' t0 t1 token
  assume "truthy action" "getDriver w d = (d', t0, Inr ())" "acquire_session w = Inr ()"
    "getVskToken w = (t1, Inr token)"
  then show "handler w d parsed
            = (d', t0 @ SessionAcquire # t1 @ [SessionRelease],
               Inr (json_response 400 (Obj [(ascii ''error'', Str (ascii ''Unknown action''))])))"
    using assms(1)
    by (simp add: handler_def withSession_def session_callback_unknown [OF assms])
next
  assume "\<not> truthy action"
  with assms(1) show "handler w d parsed
            = (d, [], Inr (json_response 400 (Obj [(ascii ''error'', Str (ascii ''action missing''))])))"
    by (rule handler_action_missing)
qed

lemma missing_stub_env [simp]:
  "missing stub_env ''YDB_ENDPOINT'' = False"
  "missing stub_env ''YDB_DATABASE'' = False"
  "missing stub_env ''VSK_CLIENT_ID'' = False"
  "missing stub_env ''VSK_CLIENT_SECRET'' = False"
  by (simp_all add: missing_def stub_env_def ascii_def)

lemma getDriver_stub:
  assumes "env w = stub_env" "metadata_get w = metadata_get stub_world" "new_driver w = Inr ()" "driver_ready w = Inr True"
  shows "getDriver w False = (True, [MetadataGet, DriverReady], Inr ())"
  using assms by (simp add: getDriver_def fetchIamToken_def)

lemma getVskToken_stub:
  assumes "env w = stub_env" "token_post w = token_post stub_world"
  shows "getVskToken w = ([TokenPost 0], Inr (Str (ascii ''tok'')))"
  using assms
  by (simp add: getVskToken_def attempts.simps [of w 0] attempt_def CONFIG_VSK_API_RETRIES_def stub_world_def)

text \<open>
  C1, as the claim has it, fails in the stubbed run with a fresh process: for the action
  \<^verbatim>\<open>frobnicate\<close> the handler fetches the metadata token, makes the driver ready, takes a
  database session and performs the token exchange before it answers.
\<close>

theorem unknown_action_makes_calls:
  "get (scenario_input ''frobnicate'') ''action'' = Inr (Str (ascii ''frobnicate''))
   \<and> handler stub_world False (scenario_input ''frobnicate'')
     = (True, [MetadataGet, DriverReady, SessionAcquire, TokenPost 0, SessionRelease],
        Inr (json_response 400 (Obj [(ascii ''error'', Str (ascii ''Unknown action''))])))"
proof -
  have a: "get (scenario_input ''frobnicate'') ''action'' = Inr (Str (ascii ''frobnicate''))"
    by (simp add: scenario_input_def)
  have n: "Str (ascii ''frobnicate'')
      \<notin> {Str (ascii ''calc''), Str (ascii ''pay''), Str (ascii ''sample''), Str (ascii ''pdf'')}"
    by simp
  show ?thesis
    by (simp add: handler_def a withSession_def session_callback_unknown [OF a n]
        getDriver_stub getVskToken_stub)
qed

theorem unknown_action_witness:
  "get (scenario_input ''frobnicate'') ''action'' = Inr (Str (ascii ''frobnicate''))
   \<and> truthy (Str (ascii ''frobnicate''))
   \<and> getDriver stub_world True = (True, [], Inr ())
   \<and> acquire_session stub_world = Inr ()
   \<and> getVskToken stub_world = ([TokenPost 0], Inr (Str (ascii ''tok'')))
   \<and> handler stub_world True (scenario_input ''frobnicate'')
     = (True, [SessionAcquire, TokenPost 0, SessionRelease],
        Inr (json_response 400 (Obj [(ascii ''error'', Str (ascii ''Unknown action''))])))
   \<and> \<not> list_ex business_call
         (fst (snd (handler stub_world True (scenario_input ''frobnicate''))))"
proof -
  have a: "get (scenario_input ''frobnicate'') ''action'' = Inr (Str (ascii ''frobnicate''))"
    by (simp add: scenario_input_def)
  have t: "truthy (Str (ascii ''frobnicate''))"
    by simp
  have n: "Str (ascii ''frobnicate'')
      \<notin> {Str (ascii ''calc''), Str (ascii ''pay''), Str (ascii ''sample''), Str (ascii ''pdf'')}"
    by simp
  have d: "getDriver stub_world True = (True, [], Inr ())"
    by (simp add: getDriver_def)
  have s: "acquire_session stub_world = Inr ()"
    by simp
  have v: "getVskToken stub_world = ([TokenPost 0], Inr (Str (ascii ''tok'')))"
    by (simp add: getVskToken_stub)
  note T = unknown_action [OF a n, of stub_world True]
  from T [THEN conjunct2, THEN conjunct1, rule_format, OF t d s v]
  have h: "handler stub_world True (scenario_input ''frobnicate'')
     = (True, [SessionAcquire, TokenPost 0, SessionRelease],
        Inr (json_response 400 (Obj [(ascii ''error'', Str (ascii ''Unknown action''))])))"
    by simp
  from T [THEN conjunct1]
  have "\<not> list_ex business_call
         (fst (snd (handler stub_world True (scenario_input ''frobnicate''))))"
    by (simp add: list_ex_iff)
  with a t d s v h show ?thesis
    by simp
qed


lemma handleCalc_write_fails:
  assumes "buildAccidentRequest (clock w) params = Inr req" and "template token = Inr ()"
    and "quote_post w token req = Inr data" and "get data ''premium'' = Inr premium"
    and "execute_query w (calc_query (later w) premium req data) = Inl e"
  shows "handleCalc w token params
     = ([QuotePost token req, ExecuteQuery (calc_query (later w) premium req data)], Inl e)"
  using assms by (simp add: handleCalc_def Let_def)

text \<open>
  A rejection of \<open>getDriver\<close> is awaited inside the \<^verbatim>\<open>try\<close>, and becomes a response with
  status 500.
\<close>

lemma handler_driver_failure:
  assumes "get parsed ''action'' = Inr action" and "truthy action"
    and "getDriver w d = (d', t0, Inl e)"
  shows "handler w d parsed
     = (d', t0, Inr (json_response 500 (Obj [(ascii ''error'', Str (message e))])))"
  using assms by (simp add: handler_def)

text \<open>
  C5 on the code. In a \<^verbatim>\<open>calc\<close> run in which the driver, the session, the token and the
  partner's quote are obtained and the database write then fails with \<open>e\<close>, the promise
  of the handler is rejected with \<open>e\<close>: the handler produces no response, with no status
  code. The \<^verbatim>\<open>catch\<close> of lines 418 to 424 does not see the error, since the promise of
  \<^verbatim>\<open>withSession\<close> is returned without \<^verbatim>\<open>await\<close>.
\<close>

theorem handler_calc_write_failure:
  assumes "get parsed ''action'' = Inr (Str (ascii ''calc''))"
    and "getDriver w d = (d', t0, Inr ())" and "acquire_session w = Inr ()"
    and "getVskToken w = (t1, Inr token)"
    and "buildAccidentRequest (clock w) parsed = Inr req" and "template token = Inr ()"
    and "quote_post w token req = Inr data" and "get data ''premium'' = Inr premium"
    and "execute_query w (calc_query (later w) premium req data) = Inl e"
  shows "handler w d parsed
     = (d', t0 @ SessionAcquire # t1
            @ [QuotePost token req, ExecuteQuery (calc_query (later w) premium req data),
               SessionRelease],
        Inl e)"
  using assms(1-4) handleCalc_write_fails [OF assms(5-9)]
  by (simp add: handler_def withSession_def session_callback_def)

theorem handler_calc_write_failure_witness:
  "get (scenario_input ''calc'') ''action'' = Inr (Str (ascii ''calc''))
   \<and> quote_post db_down_world (Str (ascii ''tok''))
       (scenario_request (ascii ''2026-11-03T23:59:59+03:00'')) = Inr scenario_quote
   \<and> execute_query db_down_world
       (calc_query (later db_down_world) (Num (Fin (2469 / 2)))
         (scenario_request (ascii ''2026-11-03T23:59:59+03:00'')) scenario_quote)
       = Inl (External (ascii ''db down''))
   \<and> handler db_down_world False (scenario_input ''calc'')
     = (True,
        [MetadataGet, DriverReady, SessionAcquire, TokenPost 0,
         QuotePost (Str (ascii ''tok'')) (scenario_request (ascii ''2026-11-03T23:59:59+03:00'')),
         ExecuteQuery (calc_query (later db_down_world) (Num (Fin (2469 / 2)))
           (scenario_request (ascii ''2026-11-03T23:59:59+03:00'')) scenario_quote),
         SessionRelease],
        Inl (External (ascii ''db down'')))"
proof -
  let ?R = "scenario_request (ascii ''2026-11-03T23:59:59+03:00'')"
  have a: "get (scenario_input ''calc'') ''action'' = Inr (Str (ascii ''calc''))"
    by (simp add: scenario_input_def)
  have d: "getDriver db_down_world False = (True, [MetadataGet, DriverReady], Inr ())"
    by (rule getDriver_stub) (simp_all add: db_down_world_def)
  have s: "acquire_session db_down_world = Inr ()"
    by (simp add: db_down_world_def)
  have v: "getVskToken db_down_world = ([TokenPost 0], Inr (Str (ascii ''tok'')))"
    by (rule getVskToken_stub) (simp_all add: db_down_world_def)
  have b: "buildAccidentRequest (clock db_down_world) (scenario_input ''calc'') = Inr ?R"
    by (simp add: buildAccidentRequest_scenario [OF issueDate_stub_clock] db_down_world_def)
  have t: "template (Str (ascii ''tok'')) = Inr ()"
    by simp
  have q: "quote_post db_down_world (Str (ascii ''tok'')) ?R = Inr scenario_quote"
    by (simp add: db_down_world_def)
  have p: "get scenario_quote ''premium'' = Inr (Num (Fin (2469 / 2)))"
    by (simp add: scenario_quote_def)
  have e: "execute_query db_down_world
       (calc_query (later db_down_world) (Num (Fin (2469 / 2))) ?R scenario_quote)
       = Inl (External (ascii ''db down''))"
    by (simp add: db_down_world_def)
  from handler_calc_write_failure [OF a d s v b t q p e] a q e show ?thesis
    by simp
qed


text \<open>
  At the level of the whole handler: a database query in a \<^verbatim>\<open>calc\<close> run is the query of
  \<open>handleCalc\<close>, made after its quote call succeeded; likewise for \<^verbatim>\<open>pay\<close>.
\<close>

lemma handler_calc_record:
  assumes "get parsed ''action'' = Inr (Str (ascii ''calc''))"
    and "ExecuteQuery q \<in> set (fst (snd (handler w d parsed)))"
  shows "\<exists>token req data.
           snd (getVskToken w) = Inr token
         \<and> buildAccidentRequest (clock w) parsed = Inr req
         \<and> quote_post w token req = Inr data
         \<and> fst (handleCalc w token parsed) = [QuotePost token req, ExecuteQuery q]"
proof -
  obtain d' t0 r0 where g: "getDriver w d = (d', t0, r0)"
    by (cases "getDriver w d") auto
  obtain t1 r1 where v: "getVskToken w = (t1, r1)"
    by (cases "getVskToken w") auto
  have t0: "ExecuteQuery q \<notin> set t0"
    using getDriver_events [of "ExecuteQuery q" w d] g by auto
  have t1: "ExecuteQuery q \<notin> set t1"
    using getVskToken_events [of "ExecuteQuery q" w] v by auto
  show ?thesis
  proof (cases r1)
    case (Inl e)
    with assms g v t0 t1 show ?thesis
      by (auto simp: handler_def withSession_def session_callback_def
          split: sum.splits prod.splits if_splits)
  next
    case (Inr token)
    with assms g v t0 t1 have "ExecuteQuery q \<in> set (fst (handleCalc w token parsed))"
      by (auto simp: handler_def withSession_def session_callback_def
          split: sum.splits prod.splits if_splits)
    with handleCalc_write [of q w token parsed] v Inr show ?thesis
      by auto
  qed
qed

lemma handler_pay_record:
  assumes "get parsed ''action'' = Inr (Str (ascii ''pay''))"
    and "ExecuteQuery q \<in> set (fst (snd (handler w d parsed)))"
  shows "\<exists>token req policy policyNumber payment pay.
           snd (getVskToken w) = Inr token
         \<and> buildAccidentRequest (clock w) parsed = Inr req
         \<and> policy_post w token req = Inr policy
         \<and> installment_put w token policyNumber payment = Inr pay
         \<and> fst (handlePay w token parsed)
             = [PolicyPost token req, InstallmentPut token policyNumber payment, ExecuteQuery q]"
proof -
  obtain d' t0 r0 where g: "getDriver w d = (d', t0, r0)"
    by (cases "getDriver w d") auto
  obtain t1 r1 where v: "getVskToken w = (t1, r1)"
    by (cases "getVskToken w") auto
  have t0: "ExecuteQuery q \<notin> set t0"
    using getDriver_events [of "ExecuteQuery q" w d] g by auto
  have t1: "ExecuteQuery q \<notin> set t1"
    using getVskToken_events [of "ExecuteQuery q" w] v by auto
  show ?thesis
  proof (cases r1)
    case (Inl e)
    with assms g v t0 t1 show ?thesis
      by (auto simp: handler_def withSession_def session_callback_def
          split: sum.splits prod.splits if_splits)
  next
    case (Inr token)
    with assms g v t0 t1 have "ExecuteQuery q \<in> set (fst (handlePay w token parsed))"
      by (auto simp: handler_def withSession_def session_callback_def
          split: sum.splits prod.splits if_splits)
    with handlePay_write [of q w token parsed] v Inr show ?thesis
      by auto
  qed
qed


end
